theory Spec2Isabelle
  imports Complex_Main "HOL-Library.Signed_Division"
begin

section \<open>The time library as the attendance service uses it\<close>

text \<open>
  The service reads the wall clock (\<^verbatim>\<open>time.Now()\<close>), takes the calendar date and the
  location of a reading, builds the instant of a wall-clock time on that date in that
  location (\<^verbatim>\<open>time.Date\<close>), adds a duration, compares two instants and subtracts them.

  A \<^verbatim>\<open>Location\<close> is what its method \<^verbatim>\<open>lookup\<close> answers: for an instant, in seconds
  since the Unix epoch, the offset from UTC in force at that instant, in seconds, and the
  bounds of the period in which that offset is in force. So a location may change its
  offset, as zones with daylight-saving time do.
\<close>

record Period =
  zoneOffset :: int
  zoneStart :: int
  zoneEnd :: int

record Location =
  lookup :: "int \<Rightarrow> Period"

text \<open>The earliest and the latest instant a period can be bounded by.\<close>

definition alpha :: int where
  "alpha = - (2 ^ 63)"

definition omega :: int where
  "omega = 2 ^ 63 - 1"

text \<open>\<^verbatim>\<open>time.UTC\<close> and \<^verbatim>\<open>time.FixedZone\<close>: one offset at every instant.\<close>

definition FixedZone :: "int \<Rightarrow> Location" where
  "FixedZone off = \<lparr>lookup = (\<lambda>sec. \<lparr>zoneOffset = off, zoneStart = alpha, zoneEnd = omega\<rparr>)\<rparr>"

definition UTC :: Location where
  "UTC = FixedZone 0"

text \<open>
  A location loaded from the zone database: the offset before the first transition and
  the transitions in ascending order, each with its instant and the offset in force from
  then on. The lookup finds the last transition that is not after the instant (the
  library searches by bisection; the scan below finds the same entry); the period ends at
  the next transition.
\<close>

fun lookupFrom :: "int \<Rightarrow> int \<Rightarrow> (int \<times> int) list \<Rightarrow> int \<Rightarrow> Period" where
  "lookupFrom off start [] sec = \<lparr>zoneOffset = off, zoneStart = start, zoneEnd = omega\<rparr>"
| "lookupFrom off start ((when, off') # tx) sec =
     (if sec < when then \<lparr>zoneOffset = off, zoneStart = start, zoneEnd = when\<rparr>
      else lookupFrom off' when tx sec)"

definition tableLocation :: "int \<Rightarrow> (int \<times> int) list \<Rightarrow> Location" where
  "tableLocation firstOffset tx = \<lparr>lookup = lookupFrom firstOffset alpha tx\<rparr>"

text \<open>
  A \<open>Time\<close> is an instant, in nanoseconds since the Unix epoch, together with its
  location. Its wall-clock reading is taken at the offset its location has at that
  instant. The triple \<^verbatim>\<open>(t.Year(), t.Month(), t.Day())\<close> is held as one value, the number
  of the local calendar day counted from 1970-01-01: the source only ever passes the triple
  of one \<open>Time\<close> back into \<^verbatim>\<open>time.Date\<close>, and the proleptic Gregorian calendar numbers
  its days one to one.
\<close>

record Time =
  unixNano :: int
  location :: Location

definition time_Second :: int where
  "time_Second = 1000000000"

definition time_Minute :: int where
  "time_Minute = 60 * time_Second"

definition nanosPerDay :: int where
  "nanosPerDay = 86400 * time_Second"

definition unixSec :: "Time \<Rightarrow> int" where
  "unixSec t = unixNano t div time_Second"

definition offsetOf :: "Time \<Rightarrow> int" where
  "offsetOf t = zoneOffset (lookup (location t) (unixSec t))"

definition localNano :: "Time \<Rightarrow> int" where
  "localNano t = unixNano t + offsetOf t * time_Second"

definition CalendarDay :: "Time \<Rightarrow> int" where
  "CalendarDay t = localNano t div nanosPerDay"

definition nanoOfDay :: "Time \<Rightarrow> int" where
  "nanoOfDay t = localNano t mod nanosPerDay"

definition Hour :: "Time \<Rightarrow> int" where
  "Hour t = nanoOfDay t div (3600 * time_Second)"

definition Minute :: "Time \<Rightarrow> int" where
  "Minute t = (nanoOfDay t div time_Minute) mod 60"

definition Second :: "Time \<Rightarrow> int" where
  "Second t = (nanoOfDay t div time_Second) mod 60"

text \<open>
  \<^verbatim>\<open>time.Date(year, month, day, hour, min, sec, nsec, loc)\<close>. Values of hour, min, sec
  and nsec outside their usual ranges carry over. The library first takes the wall-clock
  reading as if it were UTC and looks up the period of \<open>loc\<close> at that instant. When the
  offset found is not zero it subtracts it; if the instant so obtained lies outside the
  period found, it looks the offset up again at that instant and subtracts that one
  instead. \<open>dateOffset\<close> is the offset it settles on.
\<close>

definition dateOffset :: "Location \<Rightarrow> int \<Rightarrow> int" where
  "dateOffset loc unix =
     (let p = lookup loc unix
      in if zoneOffset p \<noteq> 0 then
           (let utc = unix - zoneOffset p
            in if utc < zoneStart p \<or> utc \<ge> zoneEnd p then zoneOffset (lookup loc utc)
               else zoneOffset p)
         else 0)"

definition time_Date :: "int \<Rightarrow> int \<Rightarrow> int \<Rightarrow> int \<Rightarrow> int \<Rightarrow> Location \<Rightarrow> Time" where
  "time_Date day hour minute sec nsec loc =
     (let total = (day * 86400 + hour * 3600 + minute * 60 + sec) * time_Second + nsec;
          unix = total div time_Second;
          nsec' = total mod time_Second
      in \<lparr>unixNano = (unix - dateOffset loc unix) * time_Second + nsec', location = loc\<rparr>)"

definition Add :: "Time \<Rightarrow> int \<Rightarrow> Time" where
  "Add t d = t\<lparr>unixNano := unixNano t + d\<rparr>"

definition Before :: "Time \<Rightarrow> Time \<Rightarrow> bool" where
  "Before t u = (unixNano t < unixNano u)"

text \<open>
  A \<^verbatim>\<open>Duration\<close> is a signed 64-bit count of nanoseconds; \<^verbatim>\<open>t.Sub(u)\<close> saturates at
  the largest and smallest duration.
\<close>

definition maxDuration :: int where
  "maxDuration = 2 ^ 63 - 1"

definition minDuration :: int where
  "minDuration = - (2 ^ 63)"

definition Sub :: "Time \<Rightarrow> Time \<Rightarrow> int" where
  "Sub t u =
     (let d = unixNano t - unixNano u
      in if d > maxDuration then maxDuration else if d < minDuration then minDuration else d)"

text \<open>
  \<^verbatim>\<open>d.Minutes()\<close> divides the duration by a minute on integers, quotient and remainder
  both truncating toward zero, and adds the quotient and the remainder's fraction of a
  minute as 64-bit floating point numbers; the conversion \<^verbatim>\<open>int(...)\<close> of the result
  drops the fraction. Floating point numbers are real numbers here. For a duration of
  less than a hundred days the floating-point sum has the integer part of the exact sum
  (the fraction stays a sixty-billionth or more away from the next whole number, and the
  floating point numbers up to a hundred thousand lie closer together than that), so the
  two agree on every duration between an arrival and the expected start of its calendar
  day, which lie little more than a day apart.
\<close>

definition Minutes :: "int \<Rightarrow> real" where
  "Minutes d =
     (let min = d sdiv time_Minute; nsec = d smod time_Minute
      in real_of_int min + real_of_int nsec / (60 * 1000000000))"

definition truncateToInt :: "real \<Rightarrow> int" where
  "truncateToInt x = (if 0 \<le> x then \<lfloor>x\<rfloor> else \<lceil>x\<rceil>)"

subsection \<open>Parsing a time of day with the layout 15:04:05\<close>

text \<open>
  \<^verbatim>\<open>time.Parse("15:04:05", value)\<close> as the library (Go 1.22) runs it on this layout:
  an hour of one or two digits below 24, a colon, a minute of exactly two digits below 60,
  a colon, a second of exactly two digits below 60, then optionally a period or comma
  followed by digits (a fractional second, which the layout does not mention and the
  callers never read), and nothing else. The result is the triple the callers read with
  \<^verbatim>\<open>Hour()\<close>, \<^verbatim>\<open>Minute()\<close> and \<^verbatim>\<open>Second()\<close>; \<open>None\<close> is the parse error.
\<close>

definition isDigit :: "string \<Rightarrow> nat \<Rightarrow> bool" where
  "isDigit s i =
     (if length s \<le> i then False
      else (48::nat) \<le> of_char (s ! i) \<and> of_char (s ! i) \<le> (57::nat))"

definition digitVal :: "char \<Rightarrow> nat" where
  "digitVal c = of_char c - 48"

definition getnum :: "string \<Rightarrow> bool \<Rightarrow> (nat \<times> string) option" where
  "getnum s fixed =
     (if \<not> isDigit s 0 then None
      else if \<not> isDigit s 1 then
        (if fixed then None else Some (digitVal (s ! 0), drop 1 s))
      else Some (digitVal (s ! 0) * 10 + digitVal (s ! 1), drop 2 s))"

fun skip :: "string \<Rightarrow> string \<Rightarrow> string option" where
  "skip v [] = Some v"
| "skip [] (p # ps) = None"
| "skip (c # cs) (p # ps) = (if c \<noteq> p then None else skip cs ps)"

definition commaOrPeriod :: "char \<Rightarrow> bool" where
  "commaOrPeriod c = (c = CHR ''.'' \<or> c = CHR '','')"

definition skipFraction :: "string \<Rightarrow> string" where
  "skipFraction v =
     (if 2 \<le> length v \<and> commaOrPeriod (v ! 0) \<and> isDigit v 1
      then dropWhile (\<lambda>c. isDigit [c] 0) (drop 2 v)
      else v)"

definition time_Parse :: "string \<Rightarrow> (nat \<times> nat \<times> nat) option" where
  "time_Parse v =
     (case getnum v False of
        None \<Rightarrow> None
      | Some (hour, v1) \<Rightarrow>
          if 24 \<le> hour then None
          else (case skip v1 '':'' of
            None \<Rightarrow> None
          | Some v2 \<Rightarrow>
              (case getnum v2 True of
                 None \<Rightarrow> None
               | Some (minute, v3) \<Rightarrow>
                   if 60 \<le> minute then None
                   else (case skip v3 '':'' of
                     None \<Rightarrow> None
                   | Some v4 \<Rightarrow>
                       (case getnum v4 True of
                          None \<Rightarrow> None
                        | Some (sec, v5) \<Rightarrow>
                            if 60 \<le> sec then None
                            else if skipFraction v5 \<noteq> [] then None
                            else Some (hour, minute, sec))))))"

section \<open>The timeliness classifier (internal/services)\<close>

definition calculateStatus :: "Time \<Rightarrow> string \<Rightarrow> string" where
  "calculateStatus checkInTime workStartTime =
     (case time_Parse workStartTime of
        None \<Rightarrow> ''ontime''
      | Some (h, m, s) \<Rightarrow>
          (let todayWorkStart =
                 time_Date (CalendarDay checkInTime) (int h) (int m) (int s) 0
                   (location checkInTime);
               gracePeriod = 5 * time_Minute
           in if Before checkInTime (Add todayWorkStart gracePeriod) then ''ontime''
              else ''late''))"

subsection \<open>The texts of the messages\<close>

text \<open>
  Go strings are byte sequences; the Thai texts and the emoji of the source are written
  here as their UTF-8 bytes.
\<close>

definition statusOntimeText :: string where
  "statusOntimeText =
     [CHR 0xE0, CHR 0xB9, CHR 0x80, CHR 0xE0, CHR 0xB8, CHR 0x82, CHR 0xE0, CHR 0xB9,
      CHR 0x89, CHR 0xE0, CHR 0xB8, CHR 0xB2, CHR 0xE0, CHR 0xB8, CHR 0x87, CHR 0xE0,
      CHR 0xB8, CHR 0xB2, CHR 0xE0, CHR 0xB8, CHR 0x99, CHR 0xE0, CHR 0xB8, CHR 0x95,
      CHR 0xE0, CHR 0xB8, CHR 0xA3, CHR 0xE0, CHR 0xB8, CHR 0x87, CHR 0xE0, CHR 0xB9,
      CHR 0x80, CHR 0xE0, CHR 0xB8, CHR 0xA7, CHR 0xE0, CHR 0xB8, CHR 0xA5, CHR 0xE0,
      CHR 0xB8, CHR 0xB2]"

definition lateText :: string where
  "lateText =
     [CHR 0xE0, CHR 0xB9, CHR 0x80, CHR 0xE0, CHR 0xB8, CHR 0x82, CHR 0xE0, CHR 0xB9,
      CHR 0x89, CHR 0xE0, CHR 0xB8, CHR 0xB2, CHR 0xE0, CHR 0xB8, CHR 0xAA, CHR 0xE0,
      CHR 0xB8, CHR 0xB2, CHR 0xE0, CHR 0xB8, CHR 0xA2]"

definition minutesText :: string where
  "minutesText =
     [CHR 0xE0, CHR 0xB8, CHR 0x99, CHR 0xE0, CHR 0xB8, CHR 0xB2, CHR 0xE0, CHR 0xB8,
      CHR 0x97, CHR 0xE0, CHR 0xB8, CHR 0xB5]"

definition emojiOntime :: string where
  "emojiOntime =
     [CHR 0xE2, CHR 0x9C, CHR 0x85]"

definition emojiLate :: string where
  "emojiLate =
     [CHR 0xE2, CHR 0x9A, CHR 0xA0, CHR 0xEF, CHR 0xB8, CHR 0x8F]"

definition msgGreeting :: string where
  "msgGreeting =
     [CHR 0x20, CHR 0x2A, CHR 0xE0, CHR 0xB8, CHR 0xAA, CHR 0xE0, CHR 0xB8, CHR 0xA7,
      CHR 0xE0, CHR 0xB8, CHR 0xB1, CHR 0xE0, CHR 0xB8, CHR 0xAA, CHR 0xE0, CHR 0xB8,
      CHR 0x94, CHR 0xE0, CHR 0xB8, CHR 0xB5, CHR 0xE0, CHR 0xB8, CHR 0x95, CHR 0xE0,
      CHR 0xB8, CHR 0xAD, CHR 0xE0, CHR 0xB8, CHR 0x99, CHR 0xE0, CHR 0xB9, CHR 0x80,
      CHR 0xE0, CHR 0xB8, CHR 0x8A, CHR 0xE0, CHR 0xB9, CHR 0x89, CHR 0xE0, CHR 0xB8,
      CHR 0xB2, CHR 0x20, CHR 0xE0, CHR 0xB8, CHR 0x84, CHR 0xE0, CHR 0xB8, CHR 0xB8,
      CHR 0xE0, CHR 0xB8, CHR 0x93]"

definition msgCheckIn :: string where
  "msgCheckIn =
     [CHR 0x21, CHR 0x2A, CHR 0x0A, CHR 0x0A, CHR 0xF0, CHR 0x9F, CHR 0x95, CHR 0x90,
      CHR 0x20, CHR 0xE0, CHR 0xB9, CHR 0x80, CHR 0xE0, CHR 0xB8, CHR 0xA7, CHR 0xE0,
      CHR 0xB8, CHR 0xA5, CHR 0xE0, CHR 0xB8, CHR 0xB2, CHR 0xE0, CHR 0xB9, CHR 0x80,
      CHR 0xE0, CHR 0xB8, CHR 0x82, CHR 0xE0, CHR 0xB9, CHR 0x89, CHR 0xE0, CHR 0xB8,
      CHR 0xB2, CHR 0xE0, CHR 0xB8, CHR 0x87, CHR 0xE0, CHR 0xB8, CHR 0xB2, CHR 0xE0,
      CHR 0xB8, CHR 0x99, CHR 0x3A, CHR 0x20, CHR 0x60]"

definition msgPlace :: string where
  "msgPlace =
     [CHR 0x60, CHR 0x0A, CHR 0xF0, CHR 0x9F, CHR 0x93, CHR 0x8D, CHR 0x20, CHR 0xE0,
      CHR 0xB8, CHR 0xAA, CHR 0xE0, CHR 0xB8, CHR 0x96, CHR 0xE0, CHR 0xB8, CHR 0xB2,
      CHR 0xE0, CHR 0xB8, CHR 0x99, CHR 0xE0, CHR 0xB8, CHR 0x97, CHR 0xE0, CHR 0xB8,
      CHR 0xB5, CHR 0xE0, CHR 0xB9, CHR 0x88, CHR 0x3A, CHR 0x20, CHR 0x60, CHR 0x53,
      CHR 0x63, CHR 0x61, CHR 0x6E, CHR 0x6E, CHR 0x65, CHR 0x72, CHR 0x20]"

definition msgStatus :: string where
  "msgStatus =
     [CHR 0x60, CHR 0x0A, CHR 0xE2, CHR 0x8F, CHR 0xB0, CHR 0x20, CHR 0xE0, CHR 0xB8,
      CHR 0xAA, CHR 0xE0, CHR 0xB8, CHR 0x96, CHR 0xE0, CHR 0xB8, CHR 0xB2, CHR 0xE0,
      CHR 0xB8, CHR 0x99, CHR 0xE0, CHR 0xB8, CHR 0xB0, CHR 0x3A, CHR 0x20, CHR 0x2A]"

definition msgClosing :: string where
  "msgClosing =
     [CHR 0x2A, CHR 0x0A, CHR 0x0A, CHR 0xE0, CHR 0xB8, CHR 0x82, CHR 0xE0, CHR 0xB8,
      CHR 0xAD, CHR 0xE0, CHR 0xB9, CHR 0x83, CHR 0xE0, CHR 0xB8, CHR 0xAB, CHR 0xE0,
      CHR 0xB9, CHR 0x89, CHR 0xE0, CHR 0xB8, CHR 0xA1, CHR 0xE0, CHR 0xB8, CHR 0xB5,
      CHR 0xE0, CHR 0xB8, CHR 0x84, CHR 0xE0, CHR 0xB8, CHR 0xA7, CHR 0xE0, CHR 0xB8,
      CHR 0xB2, CHR 0xE0, CHR 0xB8, CHR 0xA1, CHR 0xE0, CHR 0xB8, CHR 0xAA, CHR 0xE0,
      CHR 0xB8, CHR 0xB8, CHR 0xE0, CHR 0xB8, CHR 0x82, CHR 0xE0, CHR 0xB8, CHR 0x81,
      CHR 0xE0, CHR 0xB8, CHR 0xB1, CHR 0xE0, CHR 0xB8, CHR 0x9A, CHR 0xE0, CHR 0xB8,
      CHR 0x81, CHR 0xE0, CHR 0xB8, CHR 0xB2, CHR 0xE0, CHR 0xB8, CHR 0xA3, CHR 0xE0,
      CHR 0xB8, CHR 0x97, CHR 0xE0, CHR 0xB8, CHR 0xB3, CHR 0xE0, CHR 0xB8, CHR 0x87,
      CHR 0xE0, CHR 0xB8, CHR 0xB2, CHR 0xE0, CHR 0xB8, CHR 0x99, CHR 0xE0, CHR 0xB8,
      CHR 0xA7, CHR 0xE0, CHR 0xB8, CHR 0xB1, CHR 0xE0, CHR 0xB8, CHR 0x99, CHR 0xE0,
      CHR 0xB8, CHR 0x99, CHR 0xE0, CHR 0xB8, CHR 0xB5, CHR 0xE0, CHR 0xB9, CHR 0x89,
      CHR 0x21, CHR 0x20, CHR 0xF0, CHR 0x9F, CHR 0x98, CHR 0x8A]"

definition adminHeader :: string where
  "adminHeader =
     [CHR 0xE2, CHR 0x9A, CHR 0xA0, CHR 0xEF, CHR 0xB8, CHR 0x8F, CHR 0x20, CHR 0x2A,
      CHR 0xE0, CHR 0xB8, CHR 0x9E, CHR 0xE0, CHR 0xB8, CHR 0x99, CHR 0xE0, CHR 0xB8,
      CHR 0xB1, CHR 0xE0, CHR 0xB8, CHR 0x81, CHR 0xE0, CHR 0xB8, CHR 0x87, CHR 0xE0,
      CHR 0xB8, CHR 0xB2, CHR 0xE0, CHR 0xB8, CHR 0x99, CHR 0xE0, CHR 0xB9, CHR 0x80,
      CHR 0xE0, CHR 0xB8, CHR 0x82, CHR 0xE0, CHR 0xB9, CHR 0x89, CHR 0xE0, CHR 0xB8,
      CHR 0xB2, CHR 0xE0, CHR 0xB8, CHR 0xAA, CHR 0xE0, CHR 0xB8, CHR 0xB2, CHR 0xE0,
      CHR 0xB8, CHR 0xA2, CHR 0x2A, CHR 0x0A, CHR 0xF0, CHR 0x9F, CHR 0x91, CHR 0xA4,
      CHR 0x20, CHR 0xE0, CHR 0xB8, CHR 0x8A, CHR 0xE0, CHR 0xB8, CHR 0xB7, CHR 0xE0,
      CHR 0xB9, CHR 0x88, CHR 0xE0, CHR 0xB8, CHR 0xAD, CHR 0x3A, CHR 0x20, CHR 0x60]"

definition adminTime :: string where
  "adminTime =
     [CHR 0x60, CHR 0x0A, CHR 0xF0, CHR 0x9F, CHR 0x95, CHR 0x90, CHR 0x20, CHR 0xE0,
      CHR 0xB9, CHR 0x80, CHR 0xE0, CHR 0xB8, CHR 0xA7, CHR 0xE0, CHR 0xB8, CHR 0xA5,
      CHR 0xE0, CHR 0xB8, CHR 0xB2, CHR 0x3A, CHR 0x20, CHR 0x60]"

definition adminStatus :: string where
  "adminStatus =
     [CHR 0x60, CHR 0x0A, CHR 0xE2, CHR 0x8F, CHR 0xB0, CHR 0x20]"

subsection \<open>Formatting\<close>

text \<open>The verb \<^verbatim>\<open>%d\<close> of \<^verbatim>\<open>fmt.Sprintf\<close> on an \<^verbatim>\<open>int\<close>: decimal, with a minus sign.\<close>

fun showNat :: "nat \<Rightarrow> string" where
  "showNat n = (if n < 10 then [char_of (48 + n)] else showNat (n div 10) @ [char_of (48 + n mod 10)])"

definition showInt :: "int \<Rightarrow> string" where
  "showInt i = (if i < 0 then ''-'' @ showNat (nat (- i)) else showNat (nat i))"

text \<open>\<^verbatim>\<open>t.Format("15:04:05")\<close>: hour, minute and second of the local reading, two digits each.\<close>

definition pad2 :: "int \<Rightarrow> string" where
  "pad2 i = (if i < 10 then ''0'' @ showInt i else showInt i)"

definition Format_150405 :: "Time \<Rightarrow> string" where
  "Format_150405 t = pad2 (Hour t) @ '':'' @ pad2 (Minute t) @ '':'' @ pad2 (Second t)"

subsection \<open>The lateness description\<close>

definition calculateLateStatus :: "Time \<Rightarrow> string \<Rightarrow> string" where
  "calculateLateStatus checkInTime workStartTime =
     (case time_Parse workStartTime of
        None \<Rightarrow> lateText
      | Some (h, m, s) \<Rightarrow>
          (let todayWorkStart =
                 time_Date (CalendarDay checkInTime) (int h) (int m) (int s) 0
                   (location checkInTime);
               lateMinutes = truncateToInt (Minutes (Sub checkInTime todayWorkStart))
           in lateText @ '' '' @ showInt lateMinutes @ '' '' @ minutesText))"

section \<open>The data model (internal/models)\<close>

text \<open>
  The structs of the source, field by field. \<^verbatim>\<open>int\<close> and \<^verbatim>\<open>int64\<close> fields are
  integers here: the service compares and prints them and never computes with them.
  Fields of the employee, the attendance and the detection record carry a prefix, since several
  structs share field names.
\<close>

record DetectionRequest =
  ScannerMac :: string
  MacAddress :: string
  RSSI :: int
  DeviceType :: string
  IsITag03 :: bool
  IsTargetDevice :: bool
  DeviceName :: string

record Employee =
  emp_ID :: string
  emp_TelegramChatID :: int
  emp_Name :: string
  emp_MacAddress :: string
  emp_WorkStartTime :: string
  emp_IsActive :: bool

record Attendance =
  att_ID :: string
  att_EmployeeID :: string
  att_CheckInTime :: Time
  att_ScannerMac :: string
  att_Status :: string
  att_CreatedDate :: Time

record EmployeeDetection =
  det_ID :: string
  det_EmployeeID :: string
  det_MacAddress :: string
  det_ScannerMac :: string
  det_RSSI :: int
  det_DeviceType :: string
  det_IsITag03 :: bool
  det_IsTargetDevice :: bool
  det_DeviceName :: string
  det_DetectedAt :: Time

section \<open>Errors and collaborators\<close>

text \<open>
  A Go \<^verbatim>\<open>error\<close> is a value: the failure of the HTTP client, the failure of the JSON
  decoder, an error made by \<^verbatim>\<open>fmt.Errorf\<close> from a message alone, or one that wraps
  another error with the verb \<^verbatim>\<open>%w\<close> behind a message.
\<close>

datatype error =
    TransportError string
  | DecodeError string
  | Errorf string
  | Wrap string error

subsection \<open>The employee lookup of the PocketBase repository\<close>

text \<open>
  \<^verbatim>\<open>GetByMacAddress\<close> sends one GET request whose filter holds the lower-cased address
  and reads the answer. The HTTP client is a parameter: a function from the address in
  the filter to what \<^verbatim>\<open>httpClient.Do\<close> returns, either an error or a response with its
  status code, its status line and what decoding its body as JSON gives (an error, or
  the list of items as employees). \<^verbatim>\<open>strings.ToLower\<close> is modelled on ASCII letters,
  which is all a hardware address holds.
\<close>

record Response =
  StatusCode :: nat
  Status :: string
  Items :: "error + Employee list"

definition toLowerChar :: "char \<Rightarrow> char" where
  "toLowerChar c =
     (if (65::nat) \<le> of_char c \<and> of_char c \<le> (90::nat) then char_of (of_char c + (32::nat)) else c)"

definition ToLower :: "string \<Rightarrow> string" where
  "ToLower s = map toLowerChar s"

definition GetByMacAddress :: "(string \<Rightarrow> error + Response) \<Rightarrow> string \<Rightarrow> error + Employee" where
  "GetByMacAddress httpDo macAddress =
     (case httpDo (ToLower macAddress) of
        Inl err \<Rightarrow> Inl err
      | Inr resp \<Rightarrow>
          if StatusCode resp \<noteq> 200 then Inl (Errorf (''failed to get employee: '' @ Status resp))
          else (case Items resp of
                  Inl err \<Rightarrow> Inl err
                | Inr [] \<Rightarrow> Inl (Errorf ''employee not found'')
                | Inr (item # rest) \<Rightarrow> Inr item))"

subsection \<open>The interfaces the service is built from\<close>

text \<open>
  \<^verbatim>\<open>AttendanceService\<close> holds its repositories and the notifier as interfaces. Within one
  call of \<^verbatim>\<open>ProcessDetection\<close> each repository method is called at most once, so a
  repository is the function from the arguments of that call to its result; the clock is
  the function from the number of earlier readings to the reading. A lookup that returns
  neither an employee nor an error (on which the source would panic) is not among the
  results; the repository above never returns it. The notifier returns nothing and
  reports no error. Every call on a collaborator is appended to the list of calls, in
  order; log lines are not modelled.
\<close>

record AttendanceService =
  employeeRepo_GetByMacAddress :: "string \<Rightarrow> error + Employee"
  employeeRepo_IsCheckedInToday :: "string \<Rightarrow> error + bool"
  attendanceRepo_Create :: "Attendance \<Rightarrow> error option"
  detectionRepo_Create :: "EmployeeDetection \<Rightarrow> error option"
  time_Now :: "nat \<Rightarrow> Time"

datatype call =
    Call_GetByMacAddress string
  | Call_IsCheckedInToday string
  | Call_DetectionCreate EmployeeDetection
  | Call_AttendanceCreate Attendance
  | Call_SendPersonalNotification int string
  | Call_SendNotification string

record world =
  calls :: "call list"
  clockReads :: nat

definition emit :: "call \<Rightarrow> world \<Rightarrow> world" where
  "emit c w = w\<lparr>calls := calls w @ [c]\<rparr>"

definition readClock :: "AttendanceService \<Rightarrow> world \<Rightarrow> Time \<times> world" where
  "readClock s w = (time_Now s (clockReads w), w\<lparr>clockReads := Suc (clockReads w)\<rparr>)"

section \<open>The attendance service (internal/services)\<close>

definition sendCheckInNotification ::
  "Employee \<Rightarrow> Time \<Rightarrow> string \<Rightarrow> string \<Rightarrow> world \<Rightarrow> world" where
  "sendCheckInNotification employee checkInTime scannerMac status w =
     (let statusEmoji = (if status = ''late'' then emojiLate else emojiOntime);
          statusText =
            (if status = ''late'' then calculateLateStatus checkInTime (emp_WorkStartTime employee)
             else statusOntimeText);
          message =
            statusEmoji @ msgGreeting @ emp_Name employee @ msgCheckIn
            @ Format_150405 checkInTime @ msgPlace @ scannerMac @ msgStatus @ statusText
            @ msgClosing;
          w1 = emit (Call_SendPersonalNotification (emp_TelegramChatID employee) message) w
      in if status = ''late'' then
           emit (Call_SendNotification
                   (adminHeader @ emp_Name employee @ adminTime @ Format_150405 checkInTime
                    @ adminStatus @ statusText)) w1
         else w1)"

definition saveDetection ::
  "AttendanceService \<Rightarrow> string \<Rightarrow> DetectionRequest \<Rightarrow> world \<Rightarrow> error option \<times> world" where
  "saveDetection s employeeID req w =
     (let (now, w1) = readClock s w;
          detection =
            \<lparr>det_ID = [],
             det_EmployeeID = employeeID,
             det_MacAddress = MacAddress req,
             det_ScannerMac = ScannerMac req,
             det_RSSI = RSSI req,
             det_DeviceType = DeviceType req,
             det_IsITag03 = IsITag03 req,
             det_IsTargetDevice = IsTargetDevice req,
             det_DeviceName = DeviceName req,
             det_DetectedAt = now\<rparr>;
          w2 = emit (Call_DetectionCreate detection) w1
      in case detectionRepo_Create s detection of
           Some err \<Rightarrow> (Some (Wrap ''failed to create detection'' err), w2)
         | None \<Rightarrow> (None, w2))"

definition recordAttendance ::
  "AttendanceService \<Rightarrow> Employee \<Rightarrow> string \<Rightarrow> world \<Rightarrow> error option \<times> world" where
  "recordAttendance s employee scannerMac w =
     (let (now, w1) = readClock s w;
          status = calculateStatus now (emp_WorkStartTime employee);
          attendance =
            \<lparr>att_ID = [],
             att_EmployeeID = emp_ID employee,
             att_CheckInTime = now,
             att_ScannerMac = scannerMac,
             att_Status = status,
             att_CreatedDate = now\<rparr>;
          w2 = emit (Call_AttendanceCreate attendance) w1
      in case attendanceRepo_Create s attendance of
           Some err \<Rightarrow> (Some (Wrap ''failed to create attendance record'' err), w2)
         | None \<Rightarrow> (None, sendCheckInNotification employee now scannerMac status w2))"

definition rssiThreshold :: int where
  "rssiThreshold = - 70"

text \<open>
  \<^verbatim>\<open>ProcessDetection\<close> receives a pointer to the request and writes two of its fields; the
  model returns the request as the call leaves it, beside the returned error (\<open>None\<close> is
  \<^verbatim>\<open>nil\<close>) and the world.
\<close>

definition ProcessDetection ::
  "AttendanceService \<Rightarrow> DetectionRequest \<Rightarrow> world \<Rightarrow> error option \<times> DetectionRequest \<times> world" where
  "ProcessDetection s req w =
     (let w1 = emit (Call_GetByMacAddress (MacAddress req)) w
      in case employeeRepo_GetByMacAddress s (MacAddress req) of
           Inl err \<Rightarrow> (None, req, w1)
         | Inr employee \<Rightarrow>
             (let req1 = req\<lparr>IsTargetDevice := True, DeviceName := emp_Name employee\<rparr>
              in if RSSI req1 < rssiThreshold then (None, req1, w1)
                 else
                   (let w2 = emit (Call_IsCheckedInToday (emp_ID employee)) w1
                    in case employeeRepo_IsCheckedInToday s (emp_ID employee) of
                         Inl err \<Rightarrow>
                           (Some (Wrap ''failed to check attendance status'' err), req1, w2)
                       | Inr isCheckedIn \<Rightarrow>
                           if \<not> isCheckedIn then
                             (case saveDetection s (emp_ID employee) req1 w2 of
                                (Some err, w3) \<Rightarrow>
                                  (Some (Wrap ''failed to save detection'' err), req1, w3)
                              | (None, w3) \<Rightarrow>
                                  (case recordAttendance s employee (ScannerMac req1) w3 of
                                     (Some err, w4) \<Rightarrow>
                                       (Some (Wrap ''failed to record attendance'' err), req1, w4)
                                   | (None, w4) \<Rightarrow> (None, req1, w4)))
                           else (None, req1, w2))))"

section \<open>Notions the properties are stated with\<close>

text \<open>
  The expected start of work on the calendar day of a reading \<open>t\<close>, in the location of
  \<open>t\<close>: the instant both classifier functions build from the parsed start time.
\<close>

definition secondsOfDay :: "nat \<Rightarrow> nat \<Rightarrow> nat \<Rightarrow> int" where
  "secondsOfDay h m s = int h * 3600 + int m * 60 + int s"

definition expectedStart :: "Time \<Rightarrow> nat \<Rightarrow> nat \<Rightarrow> nat \<Rightarrow> Time" where
  "expectedStart t h m s = time_Date (CalendarDay t) (int h) (int m) (int s) 0 (location t)"

text \<open>
  The offset at which the expected start is built, and the condition that the expected
  start, read in its location, shows the wall-clock time it was built from. The condition
  fails only for a wall-clock time that a forward change of the offset skips.
\<close>

definition startOffset :: "Time \<Rightarrow> nat \<Rightarrow> nat \<Rightarrow> nat \<Rightarrow> int" where
  "startOffset t h m s = dateOffset (location t) (CalendarDay t * 86400 + secondsOfDay h m s)"

definition readsBack :: "Time \<Rightarrow> nat \<Rightarrow> nat \<Rightarrow> nat \<Rightarrow> bool" where
  "readsBack t h m s = (offsetOf (expectedStart t h m s) = startOffset t h m s)"

text \<open>Kinds of collaborator calls, and the parts of what \<open>ProcessDetection\<close> returns.\<close>

fun isDetectionCreate :: "call \<Rightarrow> bool" where
  "isDetectionCreate (Call_DetectionCreate d) = True"
| "isDetectionCreate c = False"

fun isAttendanceCreate :: "call \<Rightarrow> bool" where
  "isAttendanceCreate (Call_AttendanceCreate a) = True"
| "isAttendanceCreate c = False"

fun isNotification :: "call \<Rightarrow> bool" where
  "isNotification (Call_SendPersonalNotification chat message) = True"
| "isNotification (Call_SendNotification message) = True"
| "isNotification c = False"

definition newCalls :: "world \<Rightarrow> world \<Rightarrow> call list" where
  "newCalls w w' = drop (length (calls w)) (calls w')"

definition returnedError :: "error option \<times> DetectionRequest \<times> world \<Rightarrow> error option" where
  "returnedError r = fst r"

definition requestAfter :: "error option \<times> DetectionRequest \<times> world \<Rightarrow> DetectionRequest" where
  "requestAfter r = fst (snd r)"

definition worldAfter :: "error option \<times> DetectionRequest \<times> world \<Rightarrow> world" where
  "worldAfter r = snd (snd r)"

text \<open>The calls one run of \<open>ProcessDetection\<close> makes on its collaborators, in order.\<close>

definition callsOf :: "AttendanceService \<Rightarrow> DetectionRequest \<Rightarrow> world \<Rightarrow> call list" where
  "callsOf s req w = newCalls w (worldAfter (ProcessDetection s req w))"

subsection \<open>Concrete inputs\<close>

text \<open>
  Two locations: Bangkok, seven hours ahead of UTC all year, and New York in 2026, five
  hours behind UTC, four hours behind from 2026-03-08 07:00:00 UTC and five hours behind
  again from 2026-11-01 06:00:00 UTC.
\<close>

definition bangkok :: Location where
  "bangkok = FixedZone 25200"

definition newYork :: Location where
  "newYork = tableLocation (- 18000) [(1772953200, - 14400), (1793512800, - 18000)]"

text \<open>An instant given in seconds since the Unix epoch, in a location.\<close>

definition time_Unix :: "int \<Rightarrow> Location \<Rightarrow> Time" where
  "time_Unix sec loc = \<lparr>unixNano = sec * time_Second, location = loc\<rparr>"

text \<open>
  An employee, the detection request of the handler test with a chosen signal strength,
  a clock reading (2026-02-01 08:04:00 in Bangkok) and a service whose repositories answer
  every call with a fixed result, as a test double does.
\<close>

definition exampleEmployee :: Employee where
  "exampleEmployee =
     \<lparr>emp_ID = ''emp1'', emp_TelegramChatID = 1001, emp_Name = ''Somchai'',
      emp_MacAddress = ''11:22:33:44:55:66'', emp_WorkStartTime = ''08:00:00'',
      emp_IsActive = True\<rparr>"

definition exampleRequest :: "int \<Rightarrow> DetectionRequest" where
  "exampleRequest rssi =
     \<lparr>ScannerMac = ''AA:BB:CC:DD:EE:FF'', MacAddress = ''11:22:33:44:55:66'', RSSI = rssi,
      DeviceType = ''iTag03'', IsITag03 = True, IsTargetDevice = False, DeviceName = []\<rparr>"

definition exampleNow :: Time where
  "exampleNow = time_Date 20485 8 4 0 0 bangkok"

definition stubService ::
  "(string \<Rightarrow> error + Employee) \<Rightarrow> (error + bool) \<Rightarrow> error option \<Rightarrow> error option
     \<Rightarrow> AttendanceService" where
  "stubService lookupEmployee checkedIn detectionResult attendanceResult =
     \<lparr>employeeRepo_GetByMacAddress = lookupEmployee,
      employeeRepo_IsCheckedInToday = (\<lambda>employeeID. checkedIn),
      attendanceRepo_Create = (\<lambda>attendance. attendanceResult),
      detectionRepo_Create = (\<lambda>detection. detectionResult),
      time_Now = (\<lambda>n. exampleNow)\<rparr>"

definition found :: "string \<Rightarrow> error + Employee" where
  "found macAddress = Inr exampleEmployee"

definition world0 :: world where
  "world0 = \<lparr>calls = [], clockReads = 0\<rparr>"

definition exampleDetection :: EmployeeDetection where
  "exampleDetection =
     \<lparr>det_ID = [], det_EmployeeID = ''emp1'', det_MacAddress = ''11:22:33:44:55:66'',
      det_ScannerMac = ''AA:BB:CC:DD:EE:FF'', det_RSSI = - 50, det_DeviceType = ''iTag03'',
      det_IsITag03 = True, det_IsTargetDevice = True, det_DeviceName = ''Somchai'',
      det_DetectedAt = exampleNow\<rparr>"

text \<open>A backend that cannot be reached: the HTTP client returns an error for every request.\<close>

definition unreachableBackend :: "string \<Rightarrow> error + Response" where
  "unreachableBackend filterAddress = Inl (TransportError ''connection refused'')"

section \<open>Properties of the time model and of the parser\<close>

lemma time_Parse_range:
  "time_Parse v = Some (h, m, s) \<Longrightarrow> h < 24 \<and> m < 60 \<and> s < 60"
  by (auto simp: time_Parse_def split: option.splits if_splits prod.splits)

lemma nanoOfDay_bounds: "0 \<le> nanoOfDay t \<and> nanoOfDay t < nanosPerDay"
  by (simp add: nanoOfDay_def nanosPerDay_def time_Second_def)

lemma localNano_split: "localNano t = CalendarDay t * nanosPerDay + nanoOfDay t"
  by (simp add: CalendarDay_def nanoOfDay_def)

lemma secondsOfDay_bounds:
  "h < 24 \<Longrightarrow> m < 60 \<Longrightarrow> s < 60 \<Longrightarrow> 0 \<le> secondsOfDay h m s \<and> secondsOfDay h m s < 86400"
  by (simp add: secondsOfDay_def)

text \<open>The instant and the location of a wall-clock reading with whole seconds.\<close>

lemma time_Date_whole_seconds:
  "unixNano (time_Date day h m s 0 loc)
     = (day * 86400 + h * 3600 + m * 60 + s
          - dateOffset loc (day * 86400 + h * 3600 + m * 60 + s)) * time_Second"
  "location (time_Date day h m s 0 loc) = loc"
proof -
  let ?x = "day * 86400 + h * 3600 + m * 60 + s"
  have d: "(?x * time_Second + 0) div time_Second = ?x"
    and r: "(?x * time_Second + 0) mod time_Second = 0"
    by (simp_all add: time_Second_def)
  show "unixNano (time_Date day h m s 0 loc) = (?x - dateOffset loc ?x) * time_Second"
    unfolding time_Date_def Let_def d r by simp
  show "location (time_Date day h m s 0 loc) = loc"
    by (simp add: time_Date_def Let_def)
qed

lemma expectedStart_instant:
  "unixNano (expectedStart t h m s)
     = (CalendarDay t * 86400 + secondsOfDay h m s - startOffset t h m s) * time_Second"
  "location (expectedStart t h m s) = location t"
proof -
  have e: "CalendarDay t * 86400 + int h * 3600 + int m * 60 + int s
          = CalendarDay t * 86400 + secondsOfDay h m s"
    by (simp add: secondsOfDay_def)
  show "unixNano (expectedStart t h m s)
     = (CalendarDay t * 86400 + secondsOfDay h m s - startOffset t h m s) * time_Second"
    unfolding expectedStart_def startOffset_def time_Date_whole_seconds(1) e by (rule refl)
  show "location (expectedStart t h m s) = location t"
    by (simp add: expectedStart_def time_Date_whole_seconds(2))
qed

text \<open>A location with one offset: every reading and every start is at that offset.\<close>

lemma dateOffset_FixedZone: "dateOffset (FixedZone off) unix = off"
  by (simp add: dateOffset_def FixedZone_def Let_def)

lemma FixedZone_offsets:
  assumes "location t = FixedZone off"
  shows "offsetOf t = off" and "startOffset t h m s = off" and "readsBack t h m s"
proof -
  show "offsetOf t = off" using assms by (simp add: offsetOf_def FixedZone_def)
  show "startOffset t h m s = off" using assms by (simp add: startOffset_def dateOffset_FixedZone)
  then show "readsBack t h m s"
    using assms
    by (simp add: readsBack_def offsetOf_def expectedStart_instant(2)) (simp add: FixedZone_def)
qed

text \<open>
  When the expected start reads back, it is the reading \<open>h:m:s\<close> on the calendar day of
  \<open>t\<close>.
\<close>

lemma expectedStart_reading:
  assumes "h < 24" "m < 60" "s < 60" and rb: "readsBack t h m s"
  shows "CalendarDay (expectedStart t h m s) = CalendarDay t"
    and "nanoOfDay (expectedStart t h m s) = secondsOfDay h m s * time_Second"
    and "Hour (expectedStart t h m s) = int h"
    and "Minute (expectedStart t h m s) = int m"
    and "Second (expectedStart t h m s) = int s"
proof -
  let ?x = "secondsOfDay h m s"
  have b: "0 \<le> ?x" "?x < 86400" using secondsOfDay_bounds [OF assms(1-3)] by simp_all
  have "localNano (expectedStart t h m s)
          = (CalendarDay t * 86400 + ?x - startOffset t h m s) * time_Second
            + startOffset t h m s * time_Second"
    using rb by (simp add: localNano_def readsBack_def expectedStart_instant(1))
  then have l: "localNano (expectedStart t h m s) = (CalendarDay t * 86400 + ?x) * time_Second"
    by (simp add: algebra_simps)
  have "(CalendarDay t * 86400 + ?x) div 86400 = CalendarDay t" using b by simp
  then show c: "CalendarDay (expectedStart t h m s) = CalendarDay t"
    unfolding CalendarDay_def [of "expectedStart t h m s"] l nanosPerDay_def
    by (simp add: time_Second_def)
  have "(CalendarDay t * 86400 + ?x) mod 86400 = ?x" using b by simp
  then show n: "nanoOfDay (expectedStart t h m s) = ?x * time_Second"
    unfolding nanoOfDay_def [of "expectedStart t h m s"] l nanosPerDay_def
    by (simp add: time_Second_def)
  have y: "secondsOfDay h m s = (int h * 60 + int m) * 60 + int s"
    by (simp add: secondsOfDay_def)
  have x1: "secondsOfDay h m s div 3600 = int h"
    using assms by (simp add: secondsOfDay_def)
  have "((int h * 60 + int m) * 60 + int s) div 60 = int h * 60 + int m"
    using assms by simp
  moreover have "(int h * 60 + int m) mod 60 = int m" using assms by simp
  ultimately have x2: "(secondsOfDay h m s div 60) mod 60 = int m"
    unfolding y by simp
  have "((int h * 60 + int m) * 60 + int s) mod 60 = int s mod 60"
    by (rule mod_mult_self3)
  then have x3: "secondsOfDay h m s mod 60 = int s"
    unfolding y using assms by simp
  have nz: "time_Second \<noteq> 0" by (simp add: time_Second_def)
  have "secondsOfDay h m s * time_Second div (3600 * time_Second) = secondsOfDay h m s div 3600"
    using nz by (rule div_mult_mult2)
  then show "Hour (expectedStart t h m s) = int h"
    unfolding Hour_def n by (simp add: x1)
  have "secondsOfDay h m s * time_Second div (60 * time_Second) = secondsOfDay h m s div 60"
    using nz by (rule div_mult_mult2)
  then show "Minute (expectedStart t h m s) = int m"
    unfolding Minute_def n time_Minute_def by (simp add: x2)
  have "secondsOfDay h m s * time_Second div time_Second = secondsOfDay h m s"
    using nz by simp
  then show "Second (expectedStart t h m s) = int s"
    unfolding Second_def n by (simp add: x3)
qed

text \<open>
  The distance of a reading from the expected start of its own day: the distance of the
  two times of day, corrected by the change of the offset between the start and the
  reading.
\<close>

lemma unixNano_diff:
  "unixNano t - unixNano (expectedStart t h m s)
     = nanoOfDay t - secondsOfDay h m s * time_Second
       + (startOffset t h m s - offsetOf t) * time_Second"
proof -
  have "unixNano t = localNano t - offsetOf t * time_Second"
    by (simp add: localNano_def)
  moreover have "unixNano (expectedStart t h m s)
      = CalendarDay t * nanosPerDay + secondsOfDay h m s * time_Second
        - startOffset t h m s * time_Second"
    by (simp add: expectedStart_instant(1) nanosPerDay_def algebra_simps)
  ultimately show ?thesis
    using localNano_split [of t] by (simp add: algebra_simps)
qed

text \<open>A difference that is a duration is not saturated.\<close>

lemma Sub_in_range:
  assumes "minDuration \<le> unixNano t - unixNano u" "unixNano t - unixNano u \<le> maxDuration"
  shows "Sub t u = unixNano t - unixNano u"
  using assms by (simp add: Sub_def Let_def)

text \<open>The conversion of the minutes of a duration is the quotient truncated toward zero.\<close>

lemma truncateToInt_Minutes: "truncateToInt (Minutes d) = d sdiv time_Minute"
proof -
  define q where "q = d sdiv time_Minute"
  define r where "r = d smod time_Minute"
  have M: "time_Minute = 60000000000" by (simp add: time_Minute_def time_Second_def)
  have x: "Minutes d = real_of_int q + real_of_int r / 60000000000"
    by (simp add: Minutes_def q_def r_def)
  show ?thesis
  proof (cases "0 \<le> d")
    case True
    then have rq: "r = d mod 60000000000" "q = d div 60000000000"
      by (simp_all add: r_def q_def M signed_modulo_int_def signed_divide_int_def sgn_if)
    then have "0 \<le> r" "r < 60000000000" "0 \<le> q" using True by simp_all
    then have f: "0 \<le> real_of_int r / 60000000000" "real_of_int r / 60000000000 < 1"
      by simp_all
    then have "\<lfloor>real_of_int r / 60000000000\<rfloor> = 0" by linarith
    then have "\<lfloor>real_of_int q + real_of_int r / 60000000000\<rfloor> = q" by simp
    moreover have "0 \<le> real_of_int q + real_of_int r / 60000000000"
      using f \<open>0 \<le> q\<close> by simp
    ultimately show ?thesis by (simp add: truncateToInt_def x q_def)
  next
    case False
    then have rq: "r = - ((- d) mod 60000000000)" "q = - ((- d) div 60000000000)"
      by (simp_all add: r_def q_def M signed_modulo_int_def signed_divide_int_def sgn_if)
    then have b: "r \<le> 0" "- 60000000000 < r" "q \<le> 0" using False by simp_all
    have "d = q * time_Minute + r"
      unfolding q_def r_def by (simp add: sdiv_mult_smod_eq)
    then have "d = q * 60000000000 + r" by (simp add: M)
    with False have nz: "q < 0 \<or> r < 0" using b by auto
    have f: "real_of_int r / 60000000000 \<le> 0" "- 1 < real_of_int r / 60000000000"
      using b by simp_all
    then have "\<lceil>real_of_int r / 60000000000\<rceil> = 0" by linarith
    then have c: "\<lceil>real_of_int q + real_of_int r / 60000000000\<rceil> = q"
      by (simp add: add.commute [of "real_of_int q"])
    have "real_of_int q + real_of_int r / 60000000000 < 0"
      using nz b f by (auto simp: field_simps)
    with c show ?thesis by (simp add: truncateToInt_def x q_def)
  qed
qed

lemma showInt_examples: "showInt 6 = ''6''" "showInt 30 = ''30''"
  by code_simp+

lemma time_Parse_0800: "time_Parse ''08:00:00'' = Some (8, 0, 0)"
  by (simp add: time_Parse_def getnum_def isDigit_def digitVal_def skipFraction_def)

lemma time_Parse_invalid: "time_Parse ''invalid'' = None"
  by (simp add: time_Parse_def getnum_def isDigit_def)

text \<open>
  Every time of day written as \<^verbatim>\<open>t.Format("15:04:05")\<close> writes it parses, to the hour,
  minute and second it was written from.
\<close>

text \<open>
  Every time of day written as \<^verbatim>\<open>t.Format("15:04:05")\<close> writes it parses, to the hour,
  minute and second it was written from.
\<close>

lemma showNat_digit: "n < 10 \<Longrightarrow> showNat n = [char_of (48 + n)]"
  by simp

lemma zero_char: "CHR ''0'' = char_of (48 :: nat)"
  by code_simp

lemma pad2_two_digits:
  assumes "n < 100"
  shows "pad2 (int n) = [char_of (48 + n div 10), char_of (48 + n mod 10)]"
proof (cases "n < 10")
  case True
  then show ?thesis by (simp add: pad2_def showInt_def zero_char)
next
  case False
  with assms have "n div 10 < 10" by simp
  then have "showNat (n div 10) = [char_of (48 + n div 10)]" by (rule showNat_digit)
  with False show ?thesis
    by (simp add: pad2_def showInt_def showNat.simps [of n])
qed

lemma digit_char:
  assumes "d < 10"
  shows "isDigit (char_of (48 + d) # cs) 0" and "digitVal (char_of (48 + d)) = d"
  using assms by (simp_all add: isDigit_def digitVal_def)

lemma getnum_two_digits:
  assumes "n < 100"
  shows "getnum (pad2 (int n) @ rest) fixed = Some (n, rest)"
proof -
  have d: "n div 10 < 10" "n mod 10 < 10" using assms by simp_all
  have "isDigit (pad2 (int n) @ rest) 0" "isDigit (pad2 (int n) @ rest) 1"
    using d by (simp_all add: pad2_two_digits [OF assms] isDigit_def)
  then show ?thesis
    using d by (simp add: getnum_def pad2_two_digits [OF assms] digitVal_def)
qed

lemma time_Parse_canonical:
  assumes "h < 24" "m < 60" "s < 60"
  shows "time_Parse (pad2 (int h) @ '':'' @ pad2 (int m) @ '':'' @ pad2 (int s)) = Some (h, m, s)"
proof -
  have b: "h < 100" "m < 100" "s < 100" using assms by simp_all
  have g3: "getnum (pad2 (int s)) True = Some (s, [])"
    using getnum_two_digits [OF b(3), of "[]" True] by simp
  show ?thesis
    using assms
    by (simp add: time_Parse_def getnum_two_digits [OF b(1)] getnum_two_digits [OF b(2)] g3
          skipFraction_def)
qed

lemma time_Parse_Format:
  assumes "h < 24" "m < 60" "s < 60" and "readsBack t h m s"
  shows "time_Parse (Format_150405 (expectedStart t h m s)) = Some (h, m, s)"
  using time_Parse_canonical [OF assms(1-3)]
  by (simp add: Format_150405_def expectedStart_reading [OF assms])

section \<open>Properties of the timeliness classifier\<close>

lemma calculateStatus_parsed:
  "time_Parse ws = Some (h, m, s) \<Longrightarrow>
   calculateStatus t ws =
     (if unixNano t < unixNano (expectedStart t h m s) + 5 * time_Minute then ''ontime''
      else ''late'')"
  by (simp add: calculateStatus_def expectedStart_def Before_def Add_def)

lemma calculateLateStatus_parsed:
  assumes "time_Parse ws = Some (h, m, s)"
    and "minDuration \<le> unixNano t - unixNano (expectedStart t h m s)"
    and "unixNano t - unixNano (expectedStart t h m s) \<le> maxDuration"
  shows "calculateLateStatus t ws =
     lateText @ '' '' @ showInt ((unixNano t - unixNano (expectedStart t h m s)) sdiv time_Minute)
       @ '' '' @ minutesText"
proof -
  have "calculateLateStatus t ws =
     lateText @ '' ''
     @ showInt (truncateToInt (Minutes (Sub t (expectedStart t h m s)))) @ '' '' @ minutesText"
    using assms(1) by (simp add: calculateLateStatus_def expectedStart_def)
  then show ?thesis
    by (simp add: Sub_in_range [OF assms(2,3)] truncateToInt_Minutes)
qed

text \<open>Readings built in a location with one offset.\<close>

lemma time_Date_FixedZone:
  assumes "0 \<le> h * 3600 + m * 60 + s" "h * 3600 + m * 60 + s < 86400"
  shows "CalendarDay (time_Date day h m s 0 (FixedZone off)) = day"
    and "nanoOfDay (time_Date day h m s 0 (FixedZone off)) = (h * 3600 + m * 60 + s) * time_Second"
    and "unixNano (time_Date day h m s 0 (FixedZone off))
           = (day * 86400 + h * 3600 + m * 60 + s - off) * time_Second"
proof -
  let ?t = "time_Date day h m s 0 (FixedZone off)"
  let ?x = "h * 3600 + m * 60 + s"
  have loc: "location ?t = FixedZone off" by (rule time_Date_whole_seconds(2))
  show u: "unixNano ?t = (day * 86400 + h * 3600 + m * 60 + s - off) * time_Second"
    by (simp add: time_Date_whole_seconds(1) dateOffset_FixedZone)
  have "localNano ?t = (day * 86400 + h * 3600 + m * 60 + s - off) * time_Second
                         + off * time_Second"
    unfolding localNano_def u FixedZone_offsets(1) [OF loc] by (rule refl)
  then have l: "localNano ?t = (day * 86400 + ?x) * time_Second"
    by (simp add: algebra_simps)
  have "(day * 86400 + ?x) div 86400 = day" using assms by simp
  then show "CalendarDay ?t = day"
    unfolding CalendarDay_def l nanosPerDay_def by (simp add: time_Second_def)
  have "(day * 86400 + ?x) mod 86400 = ?x" using assms by simp
  then show "nanoOfDay ?t = ?x * time_Second"
    unfolding nanoOfDay_def l nanosPerDay_def by (simp add: time_Second_def)
qed

lemma expectedStart_FixedZone:
  assumes "0 \<le> h * 3600 + m * 60 + s" "h * 3600 + m * 60 + s < 86400"
  shows "unixNano (expectedStart (time_Date day h m s 0 (FixedZone off)) h' m' s')
           = (day * 86400 + secondsOfDay h' m' s' - off) * time_Second"
proof -
  let ?t = "time_Date day h m s 0 (FixedZone off)"
  have loc: "location ?t = FixedZone off" by (rule time_Date_whole_seconds(2))
  show ?thesis
    unfolding expectedStart_instant(1) FixedZone_offsets(2) [OF loc]
      time_Date_FixedZone(1) [OF assms]
    by (rule refl)
qed

text \<open>
  C3. For every arrival, in whatever location, and every start time that parses, the
  classification is on-time exactly when the arrival instant is strictly before the
  expected start plus five minutes, and late otherwise. The expected start is the instant
  \<^verbatim>\<open>time.Date\<close> gives for the start time \<open>h:m:s\<close> on the arrival's calendar day in the
  arrival's location: it carries that location, and wherever it reads back (it does unless
  a forward change of the offset skips \<open>h:m:s\<close> on that day) it lies on the arrival's
  calendar day and reads \<open>h:m:s\<close>. In terms of the time of day, the arrival is on time
  exactly when its time of day, corrected by the change of the offset between the start
  and the arrival, is below \<open>h:m:s\<close> plus 300 seconds; where the offset has not changed
  this is the arrival's plain time of day. In particular an arrival exactly at the
  expected start is on-time, one second before the end of the grace period is on-time, and
  one second after it is late.
\<close>

theorem calculateStatus_grace:
  assumes "time_Parse workStartTime = Some (h, m, s)"
  shows "(calculateStatus t workStartTime = ''ontime''
            \<longleftrightarrow> unixNano t < unixNano (expectedStart t h m s) + 5 * time_Minute)
       \<and> (calculateStatus t workStartTime = ''late''
            \<longleftrightarrow> \<not> unixNano t < unixNano (expectedStart t h m s) + 5 * time_Minute)
       \<and> location (expectedStart t h m s) = location t
       \<and> (readsBack t h m s \<longrightarrow>
            CalendarDay (expectedStart t h m s) = CalendarDay t
            \<and> Hour (expectedStart t h m s) = int h
            \<and> Minute (expectedStart t h m s) = int m
            \<and> Second (expectedStart t h m s) = int s)
       \<and> (unixNano t < unixNano (expectedStart t h m s) + 5 * time_Minute
            \<longleftrightarrow> nanoOfDay t + (startOffset t h m s - offsetOf t) * time_Second
                  < (secondsOfDay h m s + 300) * time_Second)
       \<and> (offsetOf t = startOffset t h m s \<longrightarrow>
            (calculateStatus t workStartTime = ''ontime''
               \<longleftrightarrow> nanoOfDay t < (secondsOfDay h m s + 300) * time_Second))
       \<and> (unixNano t = unixNano (expectedStart t h m s)
            \<longrightarrow> calculateStatus t workStartTime = ''ontime'')
       \<and> (unixNano t = unixNano (expectedStart t h m s) + 5 * time_Minute - time_Second
            \<longrightarrow> calculateStatus t workStartTime = ''ontime'')
       \<and> (unixNano t = unixNano (expectedStart t h m s) + 5 * time_Minute + time_Second
            \<longrightarrow> calculateStatus t workStartTime = ''late'')"
proof -
  note st = calculateStatus_parsed [OF assms, of t]
  have r: "h < 24" "m < 60" "s < 60" using time_Parse_range [OF assms] by simp_all
  have g: "5 * time_Minute = 300 * time_Second" by (simp add: time_Minute_def)
  have e: "(secondsOfDay h m s + 300) * time_Second
             = secondsOfDay h m s * time_Second + 300 * time_Second"
    by (rule distrib_right)
  have d: "unixNano t < unixNano (expectedStart t h m s) + 5 * time_Minute
            \<longleftrightarrow> nanoOfDay t + (startOffset t h m s - offsetOf t) * time_Second
                  < (secondsOfDay h m s + 300) * time_Second"
    unfolding g e using unixNano_diff [of t h m s] by linarith
  have p: "0 < time_Second" by (simp add: time_Second_def)
  let ?E = "unixNano (expectedStart t h m s)"
  let ?A = "unixNano t < ?E + 5 * time_Minute"
  have i1: "unixNano t = ?E \<longrightarrow> ?A" unfolding g using p by linarith
  have i2: "unixNano t = ?E + 5 * time_Minute - time_Second \<longrightarrow> ?A"
    unfolding g using p by linarith
  have i3: "unixNano t = ?E + 5 * time_Minute + time_Second \<longrightarrow> \<not> ?A"
    unfolding g using p by linarith
  have c1: "calculateStatus t workStartTime = ''ontime'' \<longleftrightarrow> ?A"
    and c2: "calculateStatus t workStartTime = ''late'' \<longleftrightarrow> \<not> ?A"
    using st by simp_all
  have j1: "unixNano t = ?E \<longrightarrow> calculateStatus t workStartTime = ''ontime''"
    using c1 i1 by simp
  have j2: "unixNano t = ?E + 5 * time_Minute - time_Second
              \<longrightarrow> calculateStatus t workStartTime = ''ontime''"
    using c1 i2 by simp
  have j3: "unixNano t = ?E + 5 * time_Minute + time_Second
              \<longrightarrow> calculateStatus t workStartTime = ''late''"
    using c2 i3 by simp
  have x: "readsBack t h m s \<longrightarrow>
            CalendarDay (expectedStart t h m s) = CalendarDay t
            \<and> Hour (expectedStart t h m s) = int h
            \<and> Minute (expectedStart t h m s) = int m
            \<and> Second (expectedStart t h m s) = int s"
    using expectedStart_reading [OF r, of t] by simp
  have so: "offsetOf t = startOffset t h m s \<longrightarrow>
            (calculateStatus t workStartTime = ''ontime''
               \<longleftrightarrow> nanoOfDay t < (secondsOfDay h m s + 300) * time_Second)"
    using c1 d by simp
  from c1 c2 expectedStart_instant(2) [of t h m s] x d so j1 j2 j3 show ?thesis
    by (intro conjI)
qed

text \<open>Readings in New York on the two days of 2026 on which its offset changes.\<close>

lemma newYork_autumn:
  "time_Parse ''00:58:00'' = Some (0, 58, 0)"
  "\<not> unixNano (time_Unix 1793512830 newYork)
       < unixNano (expectedStart (time_Unix 1793512830 newYork) 0 58 0) + 5 * time_Minute"
  "unixNano (expectedStart (time_Unix 1793512830 newYork) 0 58 0) = 1793509080 * time_Second"
  "offsetOf (time_Unix 1793512830 newYork) = - 18000"
  "startOffset (time_Unix 1793512830 newYork) 0 58 0 = - 14400"
  by code_simp+

lemma newYork_spring:
  "time_Parse ''01:58:00'' = Some (1, 58, 0)"
  "unixNano (time_Unix 1772953230 newYork)
       < unixNano (expectedStart (time_Unix 1772953230 newYork) 1 58 0) + 5 * time_Minute"
  "time_Parse ''02:50:00'' = Some (2, 50, 0)"
  "\<not> unixNano (time_Unix 1772953080 newYork)
       < unixNano (expectedStart (time_Unix 1772953080 newYork) 2 50 0) + 5 * time_Minute"
  "\<not> readsBack (time_Unix 1772953080 newYork) 2 50 0"
  "unixNano (time_Unix 1772953080 newYork)
     - unixNano (expectedStart (time_Unix 1772953080 newYork) 2 50 0) = 480 * time_Second"
  by code_simp+

text \<open>
  C3, in Bangkok with start time 08:00:00 on 2026-02-01: the arrivals at 08:00:00, 08:04:59
  and 08:05:01 are the expected start, the expected start plus grace minus one second and
  plus grace plus one second, and are classified on-time, on-time and late. In New York on
  2026-11-01, when the clocks go back, with start time 00:58:00 the arrival at 06:00:30 UTC
  (01:00:30 after the change) is late: the start was at 04:58:00 UTC. On 2026-03-08, when
  the clocks go forward, with start time 01:58:00 the arrival at 07:00:30 UTC (03:00:30
  after the change) is on-time, and with start time 02:50:00, which the clocks skip, the
  arrival at 06:58:00 UTC is late.
\<close>

theorem calculateStatus_grace_witness:
  "time_Parse ''08:00:00'' = Some (8, 0, 0)
   \<and> unixNano (time_Date 20485 8 0 0 0 bangkok)
       = unixNano (expectedStart (time_Date 20485 8 0 0 0 bangkok) 8 0 0)
   \<and> calculateStatus (time_Date 20485 8 0 0 0 bangkok) ''08:00:00'' = ''ontime''
   \<and> unixNano (time_Date 20485 8 4 59 0 bangkok)
       = unixNano (expectedStart (time_Date 20485 8 4 59 0 bangkok) 8 0 0)
         + 5 * time_Minute - time_Second
   \<and> calculateStatus (time_Date 20485 8 4 59 0 bangkok) ''08:00:00'' = ''ontime''
   \<and> unixNano (time_Date 20485 8 5 1 0 bangkok)
       = unixNano (expectedStart (time_Date 20485 8 5 1 0 bangkok) 8 0 0)
         + 5 * time_Minute + time_Second
   \<and> calculateStatus (time_Date 20485 8 5 1 0 bangkok) ''08:00:00'' = ''late''
   \<and> readsBack (time_Date 20485 8 0 0 0 bangkok) 8 0 0
   \<and> Hour (expectedStart (time_Date 20485 8 0 0 0 bangkok) 8 0 0) = 8
   \<and> time_Parse ''00:58:00'' = Some (0, 58, 0)
   \<and> calculateStatus (time_Unix 1793512830 newYork) ''00:58:00'' = ''late''
   \<and> time_Parse ''01:58:00'' = Some (1, 58, 0)
   \<and> calculateStatus (time_Unix 1772953230 newYork) ''01:58:00'' = ''ontime''
   \<and> time_Parse ''02:50:00'' = Some (2, 50, 0)
   \<and> calculateStatus (time_Unix 1772953080 newYork) ''02:50:00'' = ''late''"
proof -
  note p = time_Parse_0800
  have u1: "unixNano (time_Date 20485 8 0 0 0 bangkok)
       = unixNano (expectedStart (time_Date 20485 8 0 0 0 bangkok) 8 0 0)"
    unfolding bangkok_def
    by (simp add: expectedStart_FixedZone time_Date_FixedZone(3) secondsOfDay_def)
  have u2: "unixNano (time_Date 20485 8 4 59 0 bangkok)
       = unixNano (expectedStart (time_Date 20485 8 4 59 0 bangkok) 8 0 0)
         + 5 * time_Minute - time_Second"
    unfolding bangkok_def
    by (simp add: expectedStart_FixedZone time_Date_FixedZone(3) secondsOfDay_def
          time_Minute_def)
  have u3: "unixNano (time_Date 20485 8 5 1 0 bangkok)
       = unixNano (expectedStart (time_Date 20485 8 5 1 0 bangkok) 8 0 0)
         + 5 * time_Minute + time_Second"
    unfolding bangkok_def
    by (simp add: expectedStart_FixedZone time_Date_FixedZone(3) secondsOfDay_def
          time_Minute_def)
  have rb: "readsBack (time_Date 20485 8 0 0 0 bangkok) 8 0 0"
    by (rule FixedZone_offsets(3) [where off = 25200])
       (simp add: time_Date_whole_seconds(2) bangkok_def)
  note g1 = calculateStatus_grace [OF p, of "time_Date 20485 8 0 0 0 bangkok"]
  have s1: "calculateStatus (time_Date 20485 8 0 0 0 bangkok) ''08:00:00'' = ''ontime''"
    using g1 u1 by blast
  have h1: "Hour (expectedStart (time_Date 20485 8 0 0 0 bangkok) 8 0 0) = 8"
    using g1 rb by simp
  have s2: "calculateStatus (time_Date 20485 8 4 59 0 bangkok) ''08:00:00'' = ''ontime''"
    using calculateStatus_grace [OF p, of "time_Date 20485 8 4 59 0 bangkok"] u2 by blast
  have s3: "calculateStatus (time_Date 20485 8 5 1 0 bangkok) ''08:00:00'' = ''late''"
    using calculateStatus_grace [OF p, of "time_Date 20485 8 5 1 0 bangkok"] u3 by blast
  have n1: "calculateStatus (time_Unix 1793512830 newYork) ''00:58:00'' = ''late''"
    using calculateStatus_grace [OF newYork_autumn(1), of "time_Unix 1793512830 newYork"]
      newYork_autumn(2) by blast
  have n2: "calculateStatus (time_Unix 1772953230 newYork) ''01:58:00'' = ''ontime''"
    using calculateStatus_grace [OF newYork_spring(1), of "time_Unix 1772953230 newYork"]
      newYork_spring(2) by blast
  have n3: "calculateStatus (time_Unix 1772953080 newYork) ''02:50:00'' = ''late''"
    using calculateStatus_grace [OF newYork_spring(3), of "time_Unix 1772953080 newYork"]
      newYork_spring(4) by blast
  from p u1 s1 u2 s2 u3 s3 rb h1 newYork_autumn(1) n1 newYork_spring(1) n2 newYork_spring(3) n3
  show ?thesis by (intro conjI)
qed

text \<open>
  In a location with one offset, counted from an expected start, the arrival \<open>k\<close>
  nanoseconds later is on time exactly when \<open>k\<close> is below five minutes, as long as it
  falls on the same calendar day. An arrival after midnight is measured against the expected
  start of its own day: with start time 23:55:00, the instant five minutes and one second
  after that start is 00:00:01 of the next day and is classified on-time.
\<close>

lemma calculateStatus_offset_same_day:
  assumes p: "time_Parse ws = Some (h, m, s)"
    and k0: "0 \<le> k"
    and kd: "secondsOfDay h m s * time_Second + k < nanosPerDay"
    and fz: "location t = FixedZone off"
  shows "calculateStatus (Add (expectedStart t h m s) k) ws =
           (if k < 5 * time_Minute then ''ontime'' else ''late'')"
proof -
  let ?E = "expectedStart t h m s"
  have r: "h < 24" "m < 60" "s < 60" using time_Parse_range [OF p] by simp_all
  have s0: "0 \<le> secondsOfDay h m s * time_Second"
    using secondsOfDay_bounds [OF r] by (simp add: time_Second_def)
  have lA: "location (Add ?E k) = FixedZone off"
    by (simp add: Add_def expectedStart_instant(2) fz)
  have "localNano (Add ?E k) = unixNano ?E + k + off * time_Second"
    by (simp add: localNano_def FixedZone_offsets(1) [OF lA]) (simp add: Add_def)
  also have "unixNano ?E = (CalendarDay t * 86400 + secondsOfDay h m s - off) * time_Second"
    by (simp add: expectedStart_instant(1) FixedZone_offsets(2) [OF fz])
  finally have ln: "localNano (Add ?E k)
      = CalendarDay t * nanosPerDay + (secondsOfDay h m s * time_Second + k)"
    by (simp add: nanosPerDay_def algebra_simps)
  have "(CalendarDay t * nanosPerDay + (secondsOfDay h m s * time_Second + k)) div nanosPerDay
          = CalendarDay t"
    using s0 k0 kd by simp
  then have cd: "CalendarDay (Add ?E k) = CalendarDay t"
    by (simp add: CalendarDay_def ln)
  have zo: "location (Add ?E k) = location t"
    by (simp add: lA fz)
  have "expectedStart (Add ?E k) h m s
          = time_Date (CalendarDay (Add ?E k)) (int h) (int m) (int s) 0 (location (Add ?E k))"
    by (rule expectedStart_def)
  also have "\<dots> = time_Date (CalendarDay t) (int h) (int m) (int s) 0 (location t)"
    by (simp only: cd zo)
  also have "\<dots> = ?E"
    by (simp only: expectedStart_def)
  finally have "expectedStart (Add ?E k) h m s = ?E" .
  with calculateStatus_parsed [OF p, of "Add ?E k"] show ?thesis
    by (simp add: Add_def)
qed

lemma calculateStatus_across_midnight:
  "time_Parse ''23:55:00'' = Some (23, 55, 0)"
  "calculateStatus
     (Add (expectedStart (time_Date 20485 12 0 0 0 bangkok) 23 55 0)
        (5 * time_Minute + time_Second)) ''23:55:00'' = ''ontime''"
  by code_simp+

text \<open>
  C7. When the start time does not parse, every arrival is classified on-time, and the
  lateness description is the bare word for a late check-in, which holds no digit. Both
  functions return a string; neither has an error result.
\<close>

theorem malformed_start_time_is_ontime:
  assumes "time_Parse workStartTime = None"
  shows "calculateStatus t workStartTime = ''ontime''
       \<and> calculateLateStatus t workStartTime = lateText
       \<and> list_all (\<lambda>c. \<not> isDigit [c] 0) (calculateLateStatus t workStartTime)"
  using assms
  by (simp add: calculateStatus_def calculateLateStatus_def lateText_def isDigit_def)

text \<open>C7, at the start time \<open>invalid\<close> of the service test and an arrival at 09:00:00 in
  Bangkok.\<close>

theorem malformed_start_time_is_ontime_witness:
  "time_Parse ''invalid'' = None
   \<and> calculateStatus (time_Date 20485 9 0 0 0 bangkok) ''invalid'' = ''ontime''
   \<and> calculateLateStatus (time_Date 20485 9 0 0 0 bangkok) ''invalid'' = lateText"
  using time_Parse_invalid
    malformed_start_time_is_ontime [OF time_Parse_invalid, of "time_Date 20485 9 0 0 0 bangkok"]
  by simp

text \<open>
  C8. For a late arrival and a start time that parses, the description holds the number
  of whole minutes between the expected start and the arrival: the difference of the two
  instants divided by a minute and truncated toward zero (the difference is at least five
  minutes, so truncation and rounding down agree). The expected start is the one of C3, in
  whatever location. The arrival and the expected start belong to one calendar day, so
  their distance exceeds a day only by a change of the offset; the statement takes it to
  be below a hundred days, where durations and floating point numbers are exact. With start
  time 08:00:00 and no change of the offset between the start and the arrival, an arrival
  at 08:04:00 is on-time, an arrival at 08:06:00 is late with 6 minutes, and an arrival at
  08:30:00 is late with 30 minutes.
\<close>

theorem calculateLateStatus_whole_minutes:
  "(time_Parse ws = Some (h, m, s) \<longrightarrow> calculateStatus t ws = ''late'' \<longrightarrow>
    unixNano t - unixNano (expectedStart t h m s) < 100 * nanosPerDay \<longrightarrow>
      calculateLateStatus t ws =
        lateText @ '' ''
        @ showInt ((unixNano t - unixNano (expectedStart t h m s)) sdiv time_Minute)
        @ '' '' @ minutesText
      \<and> 5 * time_Minute \<le> unixNano t - unixNano (expectedStart t h m s)
      \<and> (unixNano t - unixNano (expectedStart t h m s)) sdiv time_Minute
          = (unixNano t - unixNano (expectedStart t h m s)) div time_Minute)
   \<and> (nanoOfDay t = (8 * 3600 + 4 * 60) * time_Second \<longrightarrow>
       offsetOf t = startOffset t 8 0 0 \<longrightarrow>
         calculateStatus t ''08:00:00'' = ''ontime'')
   \<and> (nanoOfDay t = (8 * 3600 + 6 * 60) * time_Second \<longrightarrow>
       offsetOf t = startOffset t 8 0 0 \<longrightarrow>
         calculateStatus t ''08:00:00'' = ''late''
         \<and> calculateLateStatus t ''08:00:00'' = lateText @ '' 6 '' @ minutesText)
   \<and> (nanoOfDay t = (8 * 3600 + 30 * 60) * time_Second \<longrightarrow>
       offsetOf t = startOffset t 8 0 0 \<longrightarrow>
         calculateStatus t ''08:00:00'' = ''late''
         \<and> calculateLateStatus t ''08:00:00'' = lateText @ '' 30 '' @ minutesText)"
proof -
  have pos: "0 < time_Minute" by (simp add: time_Minute_def time_Second_def)
  have gen: "calculateLateStatus t ws =
        lateText @ '' ''
        @ showInt ((unixNano t - unixNano (expectedStart t h m s)) sdiv time_Minute)
        @ '' '' @ minutesText
      \<and> 5 * time_Minute \<le> unixNano t - unixNano (expectedStart t h m s)
      \<and> (unixNano t - unixNano (expectedStart t h m s)) sdiv time_Minute
          = (unixNano t - unixNano (expectedStart t h m s)) div time_Minute"
    if p: "time_Parse ws = Some (h, m, s)" and l: "calculateStatus t ws = ''late''"
      and b: "unixNano t - unixNano (expectedStart t h m s) < 100 * nanosPerDay"
  proof -
    have "\<not> unixNano t < unixNano (expectedStart t h m s) + 5 * time_Minute"
      using calculateStatus_parsed [OF p, of t] l by (simp split: if_splits)
    then have ge: "5 * time_Minute \<le> unixNano t - unixNano (expectedStart t h m s)"
      by linarith
    with pos have nn: "0 \<le> unixNano t - unixNano (expectedStart t h m s)" by linarith
    then have lo: "minDuration \<le> unixNano t - unixNano (expectedStart t h m s)"
      by (simp add: minDuration_def)
    have hi: "unixNano t - unixNano (expectedStart t h m s) \<le> maxDuration"
      using b by (simp add: maxDuration_def nanosPerDay_def time_Second_def)
    have "(unixNano t - unixNano (expectedStart t h m s)) sdiv time_Minute
          = (unixNano t - unixNano (expectedStart t h m s)) div time_Minute"
      using nn pos by (simp add: signed_divide_int_def sgn_if)
    with ge calculateLateStatus_parsed [OF p lo hi] show ?thesis by simp
  qed
  note p8 = time_Parse_0800
  have df: "unixNano t - unixNano (expectedStart t 8 0 0) = mi * time_Minute"
    if "nanoOfDay t = (8 * 3600 + mi * 60) * time_Second" "offsetOf t = startOffset t 8 0 0"
    for mi
    using unixNano_diff [of t 8 0 0] that
    by (simp add: secondsOfDay_def time_Minute_def algebra_simps)
  have sd: "(mi * time_Minute) sdiv time_Minute = mi" if "0 \<le> mi" for mi
    using that by (simp add: signed_divide_int_def sgn_if time_Minute_def time_Second_def)
  have late: "calculateStatus t ''08:00:00'' = ''late''
         \<and> calculateLateStatus t ''08:00:00''
             = lateText @ '' '' @ showInt mi @ '' '' @ minutesText"
    if n: "nanoOfDay t = (8 * 3600 + mi * 60) * time_Second"
      and o: "offsetOf t = startOffset t 8 0 0" and mi: "5 \<le> mi" "mi < 1440" for mi
  proof -
    note d = df [OF n o]
    have lo: "minDuration \<le> unixNano t - unixNano (expectedStart t 8 0 0)"
      using mi unfolding d by (simp add: minDuration_def time_Minute_def time_Second_def)
    have hi: "unixNano t - unixNano (expectedStart t 8 0 0) \<le> maxDuration"
      using mi unfolding d by (simp add: maxDuration_def time_Minute_def time_Second_def)
    have "5 * time_Minute \<le> mi * time_Minute"
      using mi pos by simp
    then have "\<not> unixNano t < unixNano (expectedStart t 8 0 0) + 5 * time_Minute"
      using d by linarith
    then have "calculateStatus t ''08:00:00'' = ''late''"
      using calculateStatus_parsed [OF p8, of t] by simp
    moreover have "calculateLateStatus t ''08:00:00''
             = lateText @ '' '' @ showInt mi @ '' '' @ minutesText"
      using calculateLateStatus_parsed [OF p8 lo hi] mi by (simp add: d sd)
    ultimately show ?thesis by simp
  qed
  have s4: "calculateStatus t ''08:00:00'' = ''ontime''"
    if "nanoOfDay t = (8 * 3600 + 4 * 60) * time_Second" "offsetOf t = startOffset t 8 0 0"
    using calculateStatus_parsed [OF p8, of t] df [OF that] pos by simp
  have l6: "calculateStatus t ''08:00:00'' = ''late''
         \<and> calculateLateStatus t ''08:00:00'' = lateText @ '' 6 '' @ minutesText"
    if "nanoOfDay t = (8 * 3600 + 6 * 60) * time_Second" "offsetOf t = startOffset t 8 0 0"
    using late [OF that] by (simp add: showInt_examples)
  have l30: "calculateStatus t ''08:00:00'' = ''late''
         \<and> calculateLateStatus t ''08:00:00'' = lateText @ '' 30 '' @ minutesText"
    if "nanoOfDay t = (8 * 3600 + 30 * 60) * time_Second" "offsetOf t = startOffset t 8 0 0"
    using late [OF that] by (simp add: showInt_examples)
  from gen s4 l6 l30 show ?thesis by (intro conjI impI) simp_all
qed

lemma newYork_lateness:
  "time_Parse ''00:30:00'' = Some (0, 30, 0)"
  "\<not> unixNano (time_Unix 1793520000 newYork)
       < unixNano (expectedStart (time_Unix 1793520000 newYork) 0 30 0) + 5 * time_Minute"
  "unixNano (time_Unix 1793520000 newYork)
     - unixNano (expectedStart (time_Unix 1793520000 newYork) 0 30 0) = 12600 * time_Second"
  "showInt 210 = ''210''" "showInt 17 = ''17''" "showInt 8 = ''8''"
  by code_simp+

text \<open>
  C8, in Bangkok with start time 08:00:00 on 2026-02-01: the arrival at 08:17:42 is late
  with 17 minutes and the arrival at 08:06:00 with 6 minutes. In New York on 2026-11-01,
  with start time 00:30:00, the arrival at 08:00:00 UTC (03:00:00 after the clocks went
  back) is late with 210 minutes. On 2026-03-08, with start time 02:50:00, which the
  clocks skip, the arrival at 06:58:00 UTC is late with 8 minutes.
\<close>

theorem calculateLateStatus_whole_minutes_witness:
  "time_Parse ''08:00:00'' = Some (8, 0, 0)
   \<and> calculateStatus (time_Date 20485 8 17 42 0 bangkok) ''08:00:00'' = ''late''
   \<and> unixNano (time_Date 20485 8 17 42 0 bangkok)
       - unixNano (expectedStart (time_Date 20485 8 17 42 0 bangkok) 8 0 0) < 100 * nanosPerDay
   \<and> calculateLateStatus (time_Date 20485 8 17 42 0 bangkok) ''08:00:00''
        = lateText @ '' 17 '' @ minutesText
   \<and> nanoOfDay (time_Date 20485 8 6 0 0 bangkok) = (8 * 3600 + 6 * 60) * time_Second
   \<and> offsetOf (time_Date 20485 8 6 0 0 bangkok)
       = startOffset (time_Date 20485 8 6 0 0 bangkok) 8 0 0
   \<and> calculateLateStatus (time_Date 20485 8 6 0 0 bangkok) ''08:00:00''
        = lateText @ '' 6 '' @ minutesText
   \<and> time_Parse ''00:30:00'' = Some (0, 30, 0)
   \<and> calculateStatus (time_Unix 1793520000 newYork) ''00:30:00'' = ''late''
   \<and> calculateLateStatus (time_Unix 1793520000 newYork) ''00:30:00''
        = lateText @ '' 210 '' @ minutesText
   \<and> time_Parse ''02:50:00'' = Some (2, 50, 0)
   \<and> calculateStatus (time_Unix 1772953080 newYork) ''02:50:00'' = ''late''
   \<and> calculateLateStatus (time_Unix 1772953080 newYork) ''02:50:00''
        = lateText @ '' 8 '' @ minutesText"
proof -
  let ?b = "time_Date 20485 8 17 42 0 bangkok"
  let ?s = "time_Date 20485 8 6 0 0 bangkok"
  let ?n = "time_Unix 1793520000 newYork"
  let ?g = "time_Unix 1772953080 newYork"
  have S: "time_Second = 1000000000" by (rule time_Second_def)
  have M: "time_Minute = 60000000000" by (simp add: time_Minute_def time_Second_def)
  have N: "nanosPerDay = 86400000000000" by (simp add: nanosPerDay_def time_Second_def)
  have db: "unixNano ?b - unixNano (expectedStart ?b 8 0 0) = 1062000000000"
    unfolding bangkok_def
    by (simp add: expectedStart_FixedZone time_Date_FixedZone(3) secondsOfDay_def S)
  have lb: "calculateStatus ?b ''08:00:00'' = ''late''"
    using calculateStatus_parsed [OF time_Parse_0800, of ?b] db by (simp add: M)
  have bb: "unixNano ?b - unixNano (expectedStart ?b 8 0 0) < 100 * nanosPerDay"
    by (simp add: db N)
  have qb: "(1062000000000::int) sdiv time_Minute = 17"
    by (simp add: signed_divide_int_def M)
  from calculateLateStatus_whole_minutes [of "''08:00:00''" 8 0 0 ?b] time_Parse_0800 lb bb
  have "calculateLateStatus ?b ''08:00:00''
        = lateText @ '' ''
          @ showInt ((unixNano ?b - unixNano (expectedStart ?b 8 0 0)) sdiv time_Minute)
          @ '' '' @ minutesText"
    by blast
  then have rb: "calculateLateStatus ?b ''08:00:00'' = lateText @ '' 17 '' @ minutesText"
    by (simp add: db qb newYork_lateness(5))
  have ns: "nanoOfDay ?s = (8 * 3600 + 6 * 60) * time_Second"
    unfolding bangkok_def by (simp add: time_Date_FixedZone(2))
  have ls: "location ?s = FixedZone 25200"
    by (simp add: time_Date_whole_seconds(2) bangkok_def)
  have os: "offsetOf ?s = startOffset ?s 8 0 0"
    by (simp add: FixedZone_offsets(1,2) [OF ls])
  from calculateLateStatus_whole_minutes [of "''08:00:00''" 8 0 0 ?s] ns os
  have rs: "calculateLateStatus ?s ''08:00:00'' = lateText @ '' 6 '' @ minutesText"
    by blast
  have ln: "calculateStatus ?n ''00:30:00'' = ''late''"
    using calculateStatus_parsed [OF newYork_lateness(1), of ?n] newYork_lateness(2) by simp
  have bn: "unixNano ?n - unixNano (expectedStart ?n 0 30 0) < 100 * nanosPerDay"
    by (simp add: newYork_lateness(3) N S)
  have qn: "(12600 * time_Second) sdiv time_Minute = 210"
    by (simp add: signed_divide_int_def M S)
  from calculateLateStatus_whole_minutes [of "''00:30:00''" 0 30 0 ?n] newYork_lateness(1) ln bn
  have "calculateLateStatus ?n ''00:30:00''
        = lateText @ '' ''
          @ showInt ((unixNano ?n - unixNano (expectedStart ?n 0 30 0)) sdiv time_Minute)
          @ '' '' @ minutesText"
    by blast
  then have rn: "calculateLateStatus ?n ''00:30:00'' = lateText @ '' 210 '' @ minutesText"
    by (simp add: newYork_lateness(3) qn newYork_lateness(4))
  have lg: "calculateStatus ?g ''02:50:00'' = ''late''"
    using calculateStatus_parsed [OF newYork_spring(3), of ?g] newYork_spring(4) by simp
  have bg: "unixNano ?g - unixNano (expectedStart ?g 2 50 0) < 100 * nanosPerDay"
    by (simp add: newYork_spring(6) N S)
  have qg: "(480 * time_Second) sdiv time_Minute = 8"
    by (simp add: signed_divide_int_def M S)
  from calculateLateStatus_whole_minutes [of "''02:50:00''" 2 50 0 ?g] newYork_spring(3) lg bg
  have "calculateLateStatus ?g ''02:50:00''
        = lateText @ '' ''
          @ showInt ((unixNano ?g - unixNano (expectedStart ?g 2 50 0)) sdiv time_Minute)
          @ '' '' @ minutesText"
    by blast
  then have rg: "calculateLateStatus ?g ''02:50:00'' = lateText @ '' 8 '' @ minutesText"
    by (simp add: newYork_spring(6) qg newYork_lateness(6))
  from time_Parse_0800 lb bb rb ns os rs newYork_lateness(1) ln rn newYork_spring(3) lg rg
  show ?thesis by (intro conjI)
qed

section \<open>Properties of the detection pipeline\<close>

lemmas service_defs =
  ProcessDetection_def saveDetection_def recordAttendance_def sendCheckInNotification_def
  readClock_def emit_def Let_def

lemmas observer_defs =
  callsOf_def newCalls_def worldAfter_def returnedError_def requestAfter_def

lemmas example_defs =
  stubService_def found_def exampleRequest_def exampleEmployee_def world0_def rssiThreshold_def

subsection \<open>The early exits, one by one\<close>

lemma ProcessDetection_unresolved:
  "employeeRepo_GetByMacAddress s (MacAddress req) = Inl err \<Longrightarrow>
   ProcessDetection s req w = (None, req, emit (Call_GetByMacAddress (MacAddress req)) w)"
  by (simp add: ProcessDetection_def)

lemma ProcessDetection_too_far:
  "employeeRepo_GetByMacAddress s (MacAddress req) = Inr employee \<Longrightarrow>
   RSSI req < rssiThreshold \<Longrightarrow>
   ProcessDetection s req w =
     (None, req\<lparr>IsTargetDevice := True, DeviceName := emp_Name employee\<rparr>,
      emit (Call_GetByMacAddress (MacAddress req)) w)"
  by (simp add: ProcessDetection_def)

lemma ProcessDetection_check_failed:
  "employeeRepo_GetByMacAddress s (MacAddress req) = Inr employee \<Longrightarrow>
   \<not> RSSI req < rssiThreshold \<Longrightarrow>
   employeeRepo_IsCheckedInToday s (emp_ID employee) = Inl err \<Longrightarrow>
   ProcessDetection s req w =
     (Some (Wrap ''failed to check attendance status'' err),
      req\<lparr>IsTargetDevice := True, DeviceName := emp_Name employee\<rparr>,
      emit (Call_IsCheckedInToday (emp_ID employee))
        (emit (Call_GetByMacAddress (MacAddress req)) w))"
  by (simp add: ProcessDetection_def)

lemma ProcessDetection_already_checked_in:
  "employeeRepo_GetByMacAddress s (MacAddress req) = Inr employee \<Longrightarrow>
   \<not> RSSI req < rssiThreshold \<Longrightarrow>
   employeeRepo_IsCheckedInToday s (emp_ID employee) = Inr True \<Longrightarrow>
   ProcessDetection s req w =
     (None, req\<lparr>IsTargetDevice := True, DeviceName := emp_Name employee\<rparr>,
      emit (Call_IsCheckedInToday (emp_ID employee))
        (emit (Call_GetByMacAddress (MacAddress req)) w))"
  by (simp add: ProcessDetection_def)

text \<open>The two writes of the arrival branch: what each calls and what it returns.\<close>

lemma calls_saveDetection:
  "\<exists>d. calls (snd (saveDetection s employeeID req w)) = calls w @ [Call_DetectionCreate d]
     \<and> fst (saveDetection s employeeID req w)
         = map_option (Wrap ''failed to create detection'') (detectionRepo_Create s d)"
  by (simp add: saveDetection_def readClock_def emit_def Let_def split: option.splits)

lemma calls_recordAttendance:
  "\<exists>a ns. calls (snd (recordAttendance s employee scannerMac w))
            = calls w @ Call_AttendanceCreate a # ns
     \<and> list_all isNotification ns
     \<and> fst (recordAttendance s employee scannerMac w)
         = map_option (Wrap ''failed to create attendance record'') (attendanceRepo_Create s a)
     \<and> (ns = [] \<longleftrightarrow> attendanceRepo_Create s a \<noteq> None)"
  by (simp add: recordAttendance_def sendCheckInNotification_def readClock_def emit_def Let_def
        split: option.splits)

text \<open>
  The errors of the repository's lookup: the client's error, a status other than 200, the
  decoder's error, and the error made for an empty list of items.
\<close>

lemma GetByMacAddress_not_found:
  "httpDo (ToLower macAddress) = Inr resp \<Longrightarrow> StatusCode resp = 200 \<Longrightarrow>
   Items resp = Inr [] \<Longrightarrow>
   GetByMacAddress httpDo macAddress = Inl (Errorf ''employee not found'')"
  by (simp add: GetByMacAddress_def)

lemma GetByMacAddress_transport_error:
  "httpDo (ToLower macAddress) = Inl err \<Longrightarrow> GetByMacAddress httpDo macAddress = Inl err"
  by (simp add: GetByMacAddress_def)

lemma GetByMacAddress_bad_status:
  "httpDo (ToLower macAddress) = Inr resp \<Longrightarrow> StatusCode resp \<noteq> 200 \<Longrightarrow>
   GetByMacAddress httpDo macAddress
     = Inl (Errorf (''failed to get employee: '' @ Status resp))"
  by (simp add: GetByMacAddress_def)

lemma newCalls_append: "calls w' = calls w @ xs \<Longrightarrow> newCalls w w' = xs"
  by (simp add: newCalls_def)

text \<open>
  Every run of \<open>ProcessDetection\<close> ends in one of seven ways; each comes with the error
  returned and the calls made.
\<close>

lemma ProcessDetection_outcomes
  [case_names unresolved too_far check_failed already_arrived detection_failed
     attendance_failed recorded]:
  obtains
    (unresolved) err where
      "employeeRepo_GetByMacAddress s (MacAddress req) = Inl err"
      "returnedError (ProcessDetection s req w) = None"
      "callsOf s req w = [Call_GetByMacAddress (MacAddress req)]"
  | (too_far) employee where
      "employeeRepo_GetByMacAddress s (MacAddress req) = Inr employee"
      "RSSI req < rssiThreshold"
      "returnedError (ProcessDetection s req w) = None"
      "callsOf s req w = [Call_GetByMacAddress (MacAddress req)]"
  | (check_failed) employee err where
      "employeeRepo_GetByMacAddress s (MacAddress req) = Inr employee"
      "\<not> RSSI req < rssiThreshold"
      "employeeRepo_IsCheckedInToday s (emp_ID employee) = Inl err"
      "returnedError (ProcessDetection s req w)
         = Some (Wrap ''failed to check attendance status'' err)"
      "callsOf s req w
         = [Call_GetByMacAddress (MacAddress req), Call_IsCheckedInToday (emp_ID employee)]"
  | (already_arrived) employee where
      "employeeRepo_GetByMacAddress s (MacAddress req) = Inr employee"
      "\<not> RSSI req < rssiThreshold"
      "employeeRepo_IsCheckedInToday s (emp_ID employee) = Inr True"
      "returnedError (ProcessDetection s req w) = None"
      "callsOf s req w
         = [Call_GetByMacAddress (MacAddress req), Call_IsCheckedInToday (emp_ID employee)]"
  | (detection_failed) employee d err where
      "employeeRepo_GetByMacAddress s (MacAddress req) = Inr employee"
      "\<not> RSSI req < rssiThreshold"
      "employeeRepo_IsCheckedInToday s (emp_ID employee) = Inr False"
      "detectionRepo_Create s d = Some err"
      "returnedError (ProcessDetection s req w)
         = Some (Wrap ''failed to save detection'' (Wrap ''failed to create detection'' err))"
      "callsOf s req w
         = [Call_GetByMacAddress (MacAddress req), Call_IsCheckedInToday (emp_ID employee),
            Call_DetectionCreate d]"
  | (attendance_failed) employee d a err where
      "employeeRepo_GetByMacAddress s (MacAddress req) = Inr employee"
      "\<not> RSSI req < rssiThreshold"
      "employeeRepo_IsCheckedInToday s (emp_ID employee) = Inr False"
      "detectionRepo_Create s d = None"
      "attendanceRepo_Create s a = Some err"
      "returnedError (ProcessDetection s req w)
         = Some (Wrap ''failed to record attendance''
                  (Wrap ''failed to create attendance record'' err))"
      "callsOf s req w
         = [Call_GetByMacAddress (MacAddress req), Call_IsCheckedInToday (emp_ID employee),
            Call_DetectionCreate d, Call_AttendanceCreate a]"
  | (recorded) employee d a ns where
      "employeeRepo_GetByMacAddress s (MacAddress req) = Inr employee"
      "\<not> RSSI req < rssiThreshold"
      "employeeRepo_IsCheckedInToday s (emp_ID employee) = Inr False"
      "detectionRepo_Create s d = None"
      "attendanceRepo_Create s a = None"
      "returnedError (ProcessDetection s req w) = None"
      "ns \<noteq> []" "list_all isNotification ns"
      "callsOf s req w
         = [Call_GetByMacAddress (MacAddress req), Call_IsCheckedInToday (emp_ID employee),
            Call_DetectionCreate d, Call_AttendanceCreate a] @ ns"
proof (cases "employeeRepo_GetByMacAddress s (MacAddress req)")
  case (Inl err)
  from ProcessDetection_unresolved [OF Inl, of w] show ?thesis
    by (intro unresolved [OF Inl]) (simp_all add: observer_defs emit_def)
next
  case (Inr employee)
  note l = Inr
  show ?thesis
  proof (cases "RSSI req < rssiThreshold")
    case True
    from ProcessDetection_too_far [OF l True, of w] show ?thesis
      by (intro too_far [OF l True]) (simp_all add: observer_defs emit_def)
  next
    case False
    note g = False
    define req1 where "req1 = req\<lparr>IsTargetDevice := True, DeviceName := emp_Name employee\<rparr>"
    define w2 where "w2 = emit (Call_IsCheckedInToday (emp_ID employee))
                            (emit (Call_GetByMacAddress (MacAddress req)) w)"
    have cw2: "calls w2 = calls w
                 @ [Call_GetByMacAddress (MacAddress req), Call_IsCheckedInToday (emp_ID employee)]"
      by (simp add: w2_def emit_def)
    show ?thesis
    proof (cases "employeeRepo_IsCheckedInToday s (emp_ID employee)")
      case (Inl err)
      from ProcessDetection_check_failed [OF l g Inl, of w] show ?thesis
        by (intro check_failed [OF l g Inl]) (simp_all add: observer_defs emit_def)
    next
      case (Inr isCheckedIn)
      show ?thesis
      proof (cases isCheckedIn)
        case True
        with Inr have c: "employeeRepo_IsCheckedInToday s (emp_ID employee) = Inr True" by simp
        from ProcessDetection_already_checked_in [OF l g c, of w] show ?thesis
          by (intro already_arrived [OF l g c]) (simp_all add: observer_defs emit_def)
      next
        case False
        with Inr have c: "employeeRepo_IsCheckedInToday s (emp_ID employee) = Inr False" by simp
        define sd where "sd = saveDetection s (emp_ID employee) req1 w2"
        define ra where "ra = recordAttendance s employee (ScannerMac req1) (snd sd)"
        obtain d where d: "calls (snd sd) = calls w2 @ [Call_DetectionCreate d]"
          "fst sd = map_option (Wrap ''failed to create detection'') (detectionRepo_Create s d)"
          unfolding sd_def using calls_saveDetection by blast
        obtain a ns where a: "calls (snd ra) = calls (snd sd) @ Call_AttendanceCreate a # ns"
          "list_all isNotification ns"
          "fst ra = map_option (Wrap ''failed to create attendance record'')
                      (attendanceRepo_Create s a)"
          "ns = [] \<longleftrightarrow> attendanceRepo_Create s a \<noteq> None"
          unfolding ra_def using calls_recordAttendance by blast
        have pd0: "ProcessDetection s req w =
           (case sd of
              (Some err, w3) \<Rightarrow> (Some (Wrap ''failed to save detection'' err), req1, w3)
            | (None, w3) \<Rightarrow>
                (case recordAttendance s employee (ScannerMac req1) w3 of
                   (Some err, w4) \<Rightarrow> (Some (Wrap ''failed to record attendance'' err), req1, w4)
                 | (None, w4) \<Rightarrow> (None, req1, w4)))"
          unfolding req1_def w2_def sd_def using l g c by (simp add: ProcessDetection_def Let_def)
        obtain r3 w3 where sd3: "sd = (r3, w3)" by (cases sd)
        obtain r4 w4 where ra4: "ra = (r4, w4)" by (cases ra)
        have pd: "ProcessDetection s req w =
           (case fst sd of
              Some err \<Rightarrow> (Some (Wrap ''failed to save detection'' err), req1, snd sd)
            | None \<Rightarrow>
                (case fst ra of
                   Some err \<Rightarrow> (Some (Wrap ''failed to record attendance'' err), req1, snd ra)
                 | None \<Rightarrow> (None, req1, snd ra)))"
          using ra4 unfolding pd0 ra_def sd3 by (simp split: option.splits)
        show ?thesis
        proof (cases "detectionRepo_Create s d")
          case (Some err)
          have "newCalls w (snd sd)
                  = [Call_GetByMacAddress (MacAddress req),
                     Call_IsCheckedInToday (emp_ID employee), Call_DetectionCreate d]"
            by (rule newCalls_append) (simp add: d cw2)
          with pd Some d(2) show ?thesis
            by (intro detection_failed [OF l g c Some]) (simp_all add: observer_defs)
        next
          case None
          note dn = None
          have nc: "newCalls w (snd ra)
                  = [Call_GetByMacAddress (MacAddress req),
                     Call_IsCheckedInToday (emp_ID employee), Call_DetectionCreate d,
                     Call_AttendanceCreate a] @ ns"
            by (rule newCalls_append) (simp add: a d cw2)
          show ?thesis
          proof (cases "attendanceRepo_Create s a")
            case (Some err)
            with a(4) have "ns = []" by simp
            with pd dn Some d(2) a(3) nc show ?thesis
              by (intro attendance_failed [OF l g c dn Some]) (simp_all add: observer_defs)
          next
            case None
            with a(4) have "ns \<noteq> []" by simp
            with pd dn None d(2) a(2) a(3) nc show ?thesis
              by (intro recorded [OF l g c dn None]) (simp_all add: observer_defs)
          qed
        qed
      qed
    qed
  qed
qed

lemma notifications_only:
  assumes "list_all isNotification ns"
  shows "filter isDetectionCreate ns = []"
    and "filter isAttendanceCreate ns = []"
    and "filter isNotification ns = ns"
    and "Call_DetectionCreate d \<notin> set ns"
    and "Call_IsCheckedInToday employeeID \<notin> set ns"
  using assms by (induction ns) (auto elim: isNotification.elims)

subsection \<open>The detection record\<close>

text \<open>
  C1 (as the code has it). For a sighting that resolves to an employee, the detection
  repository is asked to create a record exactly once when the signal passes the gate and
  the dedup check answers that the employee has not checked in today, and not at all
  otherwise: a resolved sighting that fails the gate, whose employee has already arrived,
  or whose dedup check fails, leaves no detection record.
\<close>

theorem detection_record_only_with_new_arrival:
  assumes l: "employeeRepo_GetByMacAddress s (MacAddress req) = Inr employee"
  shows "length (filter isDetectionCreate (callsOf s req w)) =
           (if \<not> RSSI req < rssiThreshold
               \<and> employeeRepo_IsCheckedInToday s (emp_ID employee) = Inr False
            then 1 else 0)"
proof (cases rule: ProcessDetection_outcomes [of s req w])
  case (unresolved err)
  with l show ?thesis by simp
next
  case (too_far e)
  then show ?thesis by simp
next
  case (check_failed e err)
  with l show ?thesis by simp
next
  case (already_arrived e)
  with l show ?thesis by simp
next
  case (detection_failed e d err)
  with l show ?thesis by simp
next
  case (attendance_failed e d a err)
  with l show ?thesis by simp
next
  case (recorded e d a ns)
  with l show ?thesis by (simp add: notifications_only(1))
qed

text \<open>C1 (as the code has it), at a new arrival with signal strength -50.\<close>

theorem detection_record_only_with_new_arrival_witness:
  "employeeRepo_GetByMacAddress (stubService found (Inr False) None None)
       (MacAddress (exampleRequest (- 50))) = Inr exampleEmployee
   \<and> length (filter isDetectionCreate
         (callsOf (stubService found (Inr False) None None) (exampleRequest (- 50)) world0)) = 1"
proof -
  have h: "employeeRepo_GetByMacAddress (stubService found (Inr False) None None)
       (MacAddress (exampleRequest (- 50))) = Inr exampleEmployee"
    by (simp add: stubService_def found_def)
  show ?thesis
    using h detection_record_only_with_new_arrival [OF h, of world0]
    by (simp add: stubService_def exampleRequest_def rssiThreshold_def)
qed

text \<open>
  C1 as stated fails: a resolved sighting with signal strength -80 (below the gate), and
  a resolved sighting with signal strength -50 of an employee who has already checked in,
  both end without any call that creates a detection record.
\<close>

theorem no_detection_record_when_too_far_or_arrived:
  "employeeRepo_GetByMacAddress (stubService found (Inr False) None None)
       (MacAddress (exampleRequest (- 80))) = Inr exampleEmployee
   \<and> filter isDetectionCreate
         (callsOf (stubService found (Inr False) None None) (exampleRequest (- 80)) world0) = []
   \<and> employeeRepo_GetByMacAddress (stubService found (Inr True) None None)
       (MacAddress (exampleRequest (- 50))) = Inr exampleEmployee
   \<and> filter isDetectionCreate
         (callsOf (stubService found (Inr True) None None) (exampleRequest (- 50)) world0) = []"
  by (simp add: example_defs ProcessDetection_def emit_def observer_defs)

subsection \<open>Identity resolution\<close>

text \<open>
  An address the backend does not know: the repository returns its error for an empty
  list of items, and \<open>ProcessDetection\<close> returns no error and makes no further call, so
  no detection record and no attendance record is written.
\<close>

lemma unknown_device_ignored:
  assumes "httpDo (ToLower (MacAddress req)) = Inr resp"
    and "StatusCode resp = 200"
    and "Items resp = Inr []"
    and "employeeRepo_GetByMacAddress s = GetByMacAddress httpDo"
  shows "returnedError (ProcessDetection s req w) = None
       \<and> callsOf s req w = [Call_GetByMacAddress (MacAddress req)]
       \<and> requestAfter (ProcessDetection s req w) = req"
proof -
  have "employeeRepo_GetByMacAddress s (MacAddress req) = Inl (Errorf ''employee not found'')"
    using assms by (simp add: GetByMacAddress_not_found)
  then have "ProcessDetection s req w
               = (None, req, emit (Call_GetByMacAddress (MacAddress req)) w)"
    by (rule ProcessDetection_unresolved)
  then show ?thesis
    by (simp add: observer_defs emit_def)
qed

text \<open>
  C2, at a backend that cannot be reached: the repository's lookup returns the client's
  error, which is not the error for an unknown address, and \<open>ProcessDetection\<close> returns
  no error and makes no further call.
\<close>

theorem lookup_failure_reported_as_success:
  "employeeRepo_GetByMacAddress
       (stubService (GetByMacAddress unreachableBackend) (Inr False) None None)
       (MacAddress (exampleRequest (- 50))) = Inl (TransportError ''connection refused'')
   \<and> returnedError
        (ProcessDetection (stubService (GetByMacAddress unreachableBackend) (Inr False) None None)
           (exampleRequest (- 50)) world0) = None
   \<and> callsOf (stubService (GetByMacAddress unreachableBackend) (Inr False) None None)
        (exampleRequest (- 50)) world0 = [Call_GetByMacAddress ''11:22:33:44:55:66'']"
  by (simp add: example_defs ProcessDetection_def emit_def observer_defs GetByMacAddress_def
        unreachableBackend_def)

subsection \<open>The arrival branch\<close>

text \<open>
  C4 (as the code has it). When the call that creates the detection record fails,
  \<open>ProcessDetection\<close> returns that error, wrapped by \<open>saveDetection\<close> and wrapped again
  as a failure to save the detection, and the arrival branch ends there: no attendance
  record is asked for and no notification is sent.
\<close>

theorem failed_detection_write_aborts_arrival:
  assumes m: "Call_DetectionCreate d \<in> set (callsOf s req w)"
    and f: "detectionRepo_Create s d = Some err"
  shows "returnedError (ProcessDetection s req w)
           = Some (Wrap ''failed to save detection'' (Wrap ''failed to create detection'' err))
       \<and> filter isAttendanceCreate (callsOf s req w) = []
       \<and> filter isNotification (callsOf s req w) = []"
proof (cases rule: ProcessDetection_outcomes [of s req w])
  case (unresolved err')
  with m show ?thesis by simp
next
  case (too_far e)
  with m show ?thesis by simp
next
  case (check_failed e err')
  with m show ?thesis by simp
next
  case (already_arrived e)
  with m show ?thesis by simp
next
  case (detection_failed e d' err')
  with m have "d' = d" by simp
  with f detection_failed show ?thesis by simp
next
  case (attendance_failed e d' a err')
  with m have "d' = d" by simp
  with f attendance_failed show ?thesis by simp
next
  case (recorded e d' a ns)
  with m have "d' = d" by (simp add: notifications_only(4))
  with f recorded show ?thesis by simp
qed

text \<open>C4 (as the code has it), at a new arrival whose detection record is refused.\<close>

theorem failed_detection_write_aborts_arrival_witness:
  "Call_DetectionCreate exampleDetection
      \<in> set (callsOf (stubService found (Inr False) (Some (Errorf ''write refused'')) None)
                (exampleRequest (- 50)) world0)
   \<and> detectionRepo_Create (stubService found (Inr False) (Some (Errorf ''write refused'')) None)
        exampleDetection = Some (Errorf ''write refused'')
   \<and> filter isNotification
        (callsOf (stubService found (Inr False) (Some (Errorf ''write refused'')) None)
           (exampleRequest (- 50)) world0) = []"
proof -
  let ?s = "stubService found (Inr False) (Some (Errorf ''write refused'')) None"
  have h1: "Call_DetectionCreate exampleDetection \<in> set (callsOf ?s (exampleRequest (- 50)) world0)"
    by (simp add: example_defs exampleDetection_def service_defs observer_defs)
  have h2: "detectionRepo_Create ?s exampleDetection = Some (Errorf ''write refused'')"
    by (simp add: stubService_def)
  from failed_detection_write_aborts_arrival [OF h1 h2] h1 h2 show ?thesis by simp
qed

text \<open>
  C4 as stated fails: for a resolved sighting with signal strength -50 of an employee who
  has not checked in, with a detection repository that refuses the write, the detection
  record is asked for, no attendance record is asked for, and the error is returned.
\<close>

theorem failed_detection_write_skips_attendance:
  "Call_DetectionCreate exampleDetection
      \<in> set (callsOf (stubService found (Inr False) (Some (Errorf ''write refused'')) None)
                (exampleRequest (- 50)) world0)
   \<and> filter isAttendanceCreate
        (callsOf (stubService found (Inr False) (Some (Errorf ''write refused'')) None)
           (exampleRequest (- 50)) world0) = []
   \<and> returnedError
        (ProcessDetection (stubService found (Inr False) (Some (Errorf ''write refused'')) None)
           (exampleRequest (- 50)) world0)
       = Some (Wrap ''failed to save detection''
                (Wrap ''failed to create detection'' (Errorf ''write refused'')))"
  by (simp add: example_defs exampleDetection_def service_defs observer_defs)

subsection \<open>The dedup check\<close>

text \<open>
  C5. When the sighting resolves, passes the gate and the dedup check answers that the
  employee has already checked in today, \<open>ProcessDetection\<close> returns no error, asks for
  no attendance record and sends no notification: its only calls are the lookup and the
  dedup check.
\<close>

theorem already_arrived_is_silent:
  assumes "employeeRepo_GetByMacAddress s (MacAddress req) = Inr employee"
    and "\<not> RSSI req < rssiThreshold"
    and "employeeRepo_IsCheckedInToday s (emp_ID employee) = Inr True"
  shows "returnedError (ProcessDetection s req w) = None
       \<and> filter isAttendanceCreate (callsOf s req w) = []
       \<and> filter isNotification (callsOf s req w) = []
       \<and> callsOf s req w
           = [Call_GetByMacAddress (MacAddress req), Call_IsCheckedInToday (emp_ID employee)]"
proof -
  have r: "ProcessDetection s req w =
     (None, req\<lparr>IsTargetDevice := True, DeviceName := emp_Name employee\<rparr>,
      emit (Call_IsCheckedInToday (emp_ID employee))
        (emit (Call_GetByMacAddress (MacAddress req)) w))"
    using assms by (rule ProcessDetection_already_checked_in)
  have c: "callsOf s req w
             = [Call_GetByMacAddress (MacAddress req), Call_IsCheckedInToday (emp_ID employee)]"
    unfolding callsOf_def r by (simp add: worldAfter_def newCalls_def emit_def)
  have e: "returnedError (ProcessDetection s req w) = None"
    unfolding r by (simp add: returnedError_def)
  from c e show ?thesis by simp
qed

text \<open>C5, at a sighting with signal strength -50 of an employee who has checked in.\<close>

theorem already_arrived_is_silent_witness:
  "employeeRepo_GetByMacAddress (stubService found (Inr True) None None)
       (MacAddress (exampleRequest (- 50))) = Inr exampleEmployee
   \<and> \<not> RSSI (exampleRequest (- 50)) < rssiThreshold
   \<and> employeeRepo_IsCheckedInToday (stubService found (Inr True) None None)
        (emp_ID exampleEmployee) = Inr True
   \<and> returnedError (ProcessDetection (stubService found (Inr True) None None)
        (exampleRequest (- 50)) world0) = None
   \<and> callsOf (stubService found (Inr True) None None) (exampleRequest (- 50)) world0
        = [Call_GetByMacAddress ''11:22:33:44:55:66'', Call_IsCheckedInToday ''emp1'']"
proof -
  let ?s = "stubService found (Inr True) None None"
  have h1: "employeeRepo_GetByMacAddress ?s (MacAddress (exampleRequest (- 50))) = Inr exampleEmployee"
    by (simp add: stubService_def found_def)
  have h2: "\<not> RSSI (exampleRequest (- 50)) < rssiThreshold"
    by (simp add: exampleRequest_def rssiThreshold_def)
  have h3: "employeeRepo_IsCheckedInToday ?s (emp_ID exampleEmployee) = Inr True"
    by (simp add: stubService_def)
  from already_arrived_is_silent [OF h1 h2 h3, of world0] h1 h2 h3 show ?thesis
    by (simp add: exampleRequest_def exampleEmployee_def)
qed

text \<open>
  C6. When the dedup check is made and fails, \<open>ProcessDetection\<close> returns that error,
  wrapped as a failure to check the attendance status, and stops: it asks for no
  attendance record and no detection record and sends no notification.
\<close>

theorem failed_dedup_check_aborts:
  assumes m: "Call_IsCheckedInToday employeeID \<in> set (callsOf s req w)"
    and f: "employeeRepo_IsCheckedInToday s employeeID = Inl err"
  shows "returnedError (ProcessDetection s req w)
           = Some (Wrap ''failed to check attendance status'' err)
       \<and> filter isAttendanceCreate (callsOf s req w) = []
       \<and> filter isDetectionCreate (callsOf s req w) = []
       \<and> filter isNotification (callsOf s req w) = []"
proof (cases rule: ProcessDetection_outcomes [of s req w])
  case (unresolved err')
  with m show ?thesis by simp
next
  case (too_far e)
  with m show ?thesis by simp
next
  case (check_failed e err')
  with m have "employeeID = emp_ID e" by simp
  with f check_failed show ?thesis by simp
next
  case (already_arrived e)
  with m have "employeeID = emp_ID e" by simp
  with f already_arrived show ?thesis by simp
next
  case (detection_failed e d err')
  with m have "employeeID = emp_ID e" by simp
  with f detection_failed show ?thesis by simp
next
  case (attendance_failed e d a err')
  with m have "employeeID = emp_ID e" by simp
  with f attendance_failed show ?thesis by simp
next
  case (recorded e d a ns)
  with m have "employeeID = emp_ID e" by (simp add: notifications_only(5))
  with f recorded show ?thesis by simp
qed

text \<open>C6, at a sighting with signal strength -50 whose dedup check times out.\<close>

theorem failed_dedup_check_aborts_witness:
  "Call_IsCheckedInToday ''emp1''
      \<in> set (callsOf (stubService found (Inl (TransportError ''timeout'')) None None)
                (exampleRequest (- 50)) world0)
   \<and> employeeRepo_IsCheckedInToday (stubService found (Inl (TransportError ''timeout'')) None None)
        ''emp1'' = Inl (TransportError ''timeout'')
   \<and> returnedError (ProcessDetection (stubService found (Inl (TransportError ''timeout'')) None None)
        (exampleRequest (- 50)) world0)
       = Some (Wrap ''failed to check attendance status'' (TransportError ''timeout''))
   \<and> filter isAttendanceCreate
        (callsOf (stubService found (Inl (TransportError ''timeout'')) None None)
           (exampleRequest (- 50)) world0) = []"
proof -
  let ?s = "stubService found (Inl (TransportError ''timeout'')) None None"
  have h1: "Call_IsCheckedInToday ''emp1'' \<in> set (callsOf ?s (exampleRequest (- 50)) world0)"
    by (simp add: example_defs service_defs observer_defs)
  have h2: "employeeRepo_IsCheckedInToday ?s ''emp1'' = Inl (TransportError ''timeout'')"
    by (simp add: stubService_def)
  from failed_dedup_check_aborts [OF h1 h2] h1 h2 show ?thesis by simp
qed

subsection \<open>The proximity gate\<close>

text \<open>
  C9. The threshold is -70. For a sighting that resolves to an employee, the pipeline stops
  at the gate, with the lookup as its only call, exactly when the signal strength is
  strictly below the threshold; it then returns no error, asks for no attendance record
  and sends no notification. At the threshold and above, the dedup check is made.
\<close>

theorem proximity_gate:
  assumes l: "employeeRepo_GetByMacAddress s (MacAddress req) = Inr employee"
  shows "rssiThreshold = - 70
       \<and> (callsOf s req w = [Call_GetByMacAddress (MacAddress req)]
            \<longleftrightarrow> RSSI req < rssiThreshold)
       \<and> (RSSI req < rssiThreshold \<longrightarrow>
            returnedError (ProcessDetection s req w) = None
            \<and> filter isAttendanceCreate (callsOf s req w) = []
            \<and> filter isNotification (callsOf s req w) = [])
       \<and> (\<not> RSSI req < rssiThreshold \<longrightarrow>
            Call_IsCheckedInToday (emp_ID employee) \<in> set (callsOf s req w))"
proof -
  have gate: "(callsOf s req w = [Call_GetByMacAddress (MacAddress req)]
            \<longleftrightarrow> RSSI req < rssiThreshold)
       \<and> (RSSI req < rssiThreshold \<longrightarrow>
            returnedError (ProcessDetection s req w) = None
            \<and> filter isAttendanceCreate (callsOf s req w) = []
            \<and> filter isNotification (callsOf s req w) = [])
       \<and> (\<not> RSSI req < rssiThreshold \<longrightarrow>
            Call_IsCheckedInToday (emp_ID employee) \<in> set (callsOf s req w))"
  proof (cases rule: ProcessDetection_outcomes [of s req w])
    case (unresolved err)
    with l show ?thesis by simp
  next
    case (too_far e)
    then show ?thesis by simp
  next
    case (check_failed e err)
    with l show ?thesis by simp
  next
    case (already_arrived e)
    with l show ?thesis by simp
  next
    case (detection_failed e d err)
    with l show ?thesis by simp
  next
    case (attendance_failed e d a err)
    with l show ?thesis by simp
  next
    case (recorded e d a ns)
    with l show ?thesis by simp
  qed
  then show ?thesis by (simp add: rssiThreshold_def)
qed

text \<open>
  C9, at signal strength -71 (one below the threshold, rejected in silence) and at
  signal strength -70 (the threshold itself, which passes on to the dedup check).
\<close>

theorem proximity_gate_witness:
  "employeeRepo_GetByMacAddress (stubService found (Inr False) None None)
       (MacAddress (exampleRequest (- 71))) = Inr exampleEmployee
   \<and> RSSI (exampleRequest (- 71)) < rssiThreshold
   \<and> returnedError (ProcessDetection (stubService found (Inr False) None None)
        (exampleRequest (- 71)) world0) = None
   \<and> filter isAttendanceCreate
        (callsOf (stubService found (Inr False) None None) (exampleRequest (- 71)) world0) = []
   \<and> \<not> RSSI (exampleRequest (- 70)) < rssiThreshold
   \<and> Call_IsCheckedInToday (emp_ID exampleEmployee)
        \<in> set (callsOf (stubService found (Inr False) None None) (exampleRequest (- 70)) world0)"
proof -
  let ?s = "stubService found (Inr False) None None"
  have h: "employeeRepo_GetByMacAddress ?s (MacAddress (exampleRequest r)) = Inr exampleEmployee"
    for r
    by (simp add: stubService_def found_def)
  have a: "RSSI (exampleRequest (- 71)) < rssiThreshold"
    and b: "\<not> RSSI (exampleRequest (- 70)) < rssiThreshold"
    by (simp_all add: exampleRequest_def rssiThreshold_def)
  note g1 = proximity_gate [OF h [of "- 71"], of world0, THEN conjunct2]
  note g2 = proximity_gate [OF h [of "- 70"], of world0, THEN conjunct2]
  from g1 g2 h [of "- 71"] a b show ?thesis by blast
qed

subsection \<open>The request\<close>

text \<open>
  C10 (as the code has it). \<open>ProcessDetection\<close> leaves the scanner address, the hardware
  address, the signal strength, the device type and the tag flag of the request as
  received. When the address resolves to an employee it sets the target-device flag and
  writes the employee's name into the device name, whatever happens afterwards; when the
  lookup returns an error it leaves the whole request as received.
\<close>

theorem request_after_processing:
  "requestAfter (ProcessDetection s req w) =
     (case employeeRepo_GetByMacAddress s (MacAddress req) of
        Inl err \<Rightarrow> req
      | Inr employee \<Rightarrow> req\<lparr>IsTargetDevice := True, DeviceName := emp_Name employee\<rparr>)
   \<and> ScannerMac (requestAfter (ProcessDetection s req w)) = ScannerMac req
   \<and> MacAddress (requestAfter (ProcessDetection s req w)) = MacAddress req
   \<and> RSSI (requestAfter (ProcessDetection s req w)) = RSSI req
   \<and> DeviceType (requestAfter (ProcessDetection s req w)) = DeviceType req
   \<and> IsITag03 (requestAfter (ProcessDetection s req w)) = IsITag03 req"
proof -
  have r: "requestAfter (ProcessDetection s req w) =
     (case employeeRepo_GetByMacAddress s (MacAddress req) of
        Inl err \<Rightarrow> req
      | Inr employee \<Rightarrow> req\<lparr>IsTargetDevice := True, DeviceName := emp_Name employee\<rparr>)"
    by (simp add: ProcessDetection_def requestAfter_def Let_def
          split: sum.splits prod.splits option.splits)
  show ?thesis
    unfolding r by (simp split: sum.splits)
qed

text \<open>
  C10 as stated fails: the request of the handler test arrives with the target-device flag
  unset and an empty device name, and leaves \<open>ProcessDetection\<close> with the flag set and the
  employee's name as its device name.
\<close>

theorem request_fields_overwritten:
  "IsTargetDevice (exampleRequest (- 50)) = False
   \<and> DeviceName (exampleRequest (- 50)) = []
   \<and> IsTargetDevice (requestAfter (ProcessDetection (stubService found (Inr True) None None)
        (exampleRequest (- 50)) world0)) = True
   \<and> DeviceName (requestAfter (ProcessDetection (stubService found (Inr True) None None)
        (exampleRequest (- 50)) world0)) = ''Somchai''"
  by (simp add: example_defs ProcessDetection_def emit_def observer_defs)

end
